theory Spec2Isabelle
  imports Complex_Main
begin

section \<open>Dates, periods and frequencies\<close>

text \<open>
  A \<open>Date\<close> of the library is a serial day number: \<open>d + n\<close> moves it by \<open>n\<close> days and
  \<open>d - d'\<close> counts the days between two dates. \<open>Real\<close> and \<open>Rate\<close> are modelled by the
  type \<open>real\<close>, so the formulas of the engines are read over the ordered field and
  rounding is not represented.
\<close>

type_synonym Date = int

datatype TimeUnit = Days | Weeks | Months | Years

datatype Period = Period int TimeUnit

text \<open>
  Modelled from the spec: the \<open>Frequency\<close> enumeration is declared outside the source
  files at hand; these are the publication cadences for which an inflation period exists.
\<close>

datatype Frequency = Annual | Semiannual | Quarterly | Monthly

text \<open>
  Modelled from the spec: the constructor \<open>Period(Frequency)\<close>, "one full publication
  period".
\<close>

fun Period_of :: "Frequency \<Rightarrow> Period" where
  "Period_of Annual = Period 1 Years"
| "Period_of Semiannual = Period 6 Months"
| "Period_of Quarterly = Period 3 Months"
| "Period_of Monthly = Period 1 Months"

fun negate :: "Period \<Rightarrow> Period" where
  "negate (Period n u) = Period (- n) u"

text \<open>
  Modelled from the spec: \<open>Null<Real>()\<close>, the distinguished "missing" sentinel of the
  historical series store (the largest single-precision value).
\<close>

definition Null_Real :: real where
  "Null_Real = (2 ^ 24 - 1) * 2 ^ 104"

section \<open>External collaborators\<close>

text \<open>
  The period and lag arithmetic, the evaluation date, the day counting and the power
  function are used by the engines as given. They are the fields of an environment:
  \<open>plus_Period E d p\<close> is \<open>d + p\<close> for a period \<open>p\<close>, \<open>mkDate E d m y\<close> is the constructor
  \<open>Date(d, m, y)\<close>, \<open>advance E d p\<close> is \<open>NullCalendar().advance(d, p, ModifiedFollowing)\<close>,
  \<open>pow E\<close> is \<open>std::pow\<close>.
\<close>

type_synonym DayCounter = string

record Env =
  evaluationDate :: Date
  inflationPeriod :: "Date \<Rightarrow> Frequency \<Rightarrow> Date \<times> Date"
  plus_Period :: "Date \<Rightarrow> Period \<Rightarrow> Date"
  advance :: "Date \<Rightarrow> Period \<Rightarrow> Date"
  month :: "Date \<Rightarrow> int"
  year :: "Date \<Rightarrow> int"
  mkDate :: "int \<Rightarrow> int \<Rightarrow> int \<Rightarrow> Date"
  inflationYearFraction :: "Frequency \<Rightarrow> bool \<Rightarrow> DayCounter \<Rightarrow> Date \<Rightarrow> Date \<Rightarrow> real"
  pow :: "real \<Rightarrow> real \<Rightarrow> real"

text \<open>\<open>d - p\<close> for a period \<open>p\<close> is \<open>d + (-p)\<close>.\<close>

definition minus_Period :: "Env \<Rightarrow> Date \<Rightarrow> Period \<Rightarrow> Date" where
  "minus_Period E d p = plus_Period E d (negate p)"

text \<open>
  The curves, by the accessors that the engines call. An index holds its curve through a
  \<open>Handle\<close>, which may be empty: the handle is an \<open>option\<close>, and the use of an empty
  handle fails with UnboundCurve.
\<close>

record ZeroInflationTermStructure =
  baseDate :: Date
  observationLag :: Period
  dayCounter :: DayCounter
  zeroRate :: "Date \<Rightarrow> Period \<Rightarrow> bool \<Rightarrow> real"

record YoYInflationTermStructure =
  yoyRate :: "Date \<Rightarrow> Period \<Rightarrow> real"

section \<open>The inflation index and its historical series\<close>

type_synonym TimeSeries = "Date \<rightharpoonup> real"

text \<open>\<open>ts[d]\<close>: the stored value, or the sentinel when the series has no entry at \<open>d\<close>.\<close>

definition ts_at :: "TimeSeries \<Rightarrow> Date \<Rightarrow> real" where
  "ts_at ts d = (case ts d of None \<Rightarrow> Null_Real | Some v \<Rightarrow> v)"

record InflationIndex =
  familyName :: string
  region :: string
  revised :: bool
  interpolated :: bool
  frequency :: Frequency
  availabilityLag :: Period
  currency :: string
  timeSeries :: TimeSeries

record ZeroInflationIndex = InflationIndex +
  zeroInflation :: "ZeroInflationTermStructure option"

record YoYInflationIndex = InflationIndex +
  ratio :: bool
  yoyInflation :: "YoYInflationTermStructure option"

definition name :: "'a InflationIndex_scheme \<Rightarrow> string" where
  "name idx = region idx @ '' '' @ familyName idx"

text \<open>
  The failures, by kind. MissingFixing carries the name of the index and the date that the
  message prints (\<open>"Missing <name> fixing for <date>"\<close>), InvalidBaseDate the name and the
  base date, UnsupportedInterpolation the tag, DuplicateFixing the name and the date in
  conflict.
\<close>

datatype Error =
    MissingFixing string Date
  | DuplicateFixing string Date
  | InvalidBaseDate string Date
  | UnsupportedInterpolation int
  | UnboundCurve

section \<open>Zero inflation fixing engine\<close>

text \<open>
  \<open>needsForecast\<close>, with its two local dates as functions of their own:
  \<open>historicalFixingKnown\<close> is the day before the start of the period that contains today
  minus the availability lag, and \<open>latestNeededDate\<close> is the fixing date, moved on by one
  publication period when the index is interpolated and the date is after the start of
  its period.
\<close>

definition historicalFixingKnown :: "Env \<Rightarrow> 'a InflationIndex_scheme \<Rightarrow> Date" where
  "historicalFixingKnown E idx =
     (let today = evaluationDate E;
          todayMinusLag = minus_Period E today (availabilityLag idx)
      in fst (inflationPeriod E todayMinusLag (frequency idx)) - 1)"

definition latestNeededDate :: "Env \<Rightarrow> 'a InflationIndex_scheme \<Rightarrow> Date \<Rightarrow> Date" where
  "latestNeededDate E idx fixingDate =
     (if interpolated idx
      then (let p = inflationPeriod E fixingDate (frequency idx)
            in if fixingDate > fst p then plus_Period E fixingDate (Period_of (frequency idx))
               else fixingDate)
      else fixingDate)"

definition needsForecast :: "Env \<Rightarrow> 'a InflationIndex_scheme \<Rightarrow> Date \<Rightarrow> bool" where
  "needsForecast E idx fixingDate =
     (let today = evaluationDate E;
          latest = latestNeededDate E idx fixingDate
      in if latest \<le> historicalFixingKnown E idx then False
         else if latest > today then True
         else (let first = mkDate E 1 (month E latest) (year E latest);
                   f = ts_at (timeSeries idx) first
               in f = Null_Real))"

text \<open>
  The weight of the linear interpolation, on the non-lagged period: the period that
  contains \<open>fixingDate + observationLag\<close>. \<open>fixing\<close> and \<open>forecastFixing\<close> compute it
  with the same four lines.
\<close>

definition interpolationCoefficient :: "Env \<Rightarrow> Frequency \<Rightarrow> Period \<Rightarrow> Date \<Rightarrow> real" where
  "interpolationCoefficient E f lag fixingDate =
     (let observationDate = plus_Period E fixingDate lag;
          p2 = inflationPeriod E observationDate f;
          daysInPeriod = real_of_int ((snd p2 + 1) - fst p2)
      in real_of_int (observationDate - fst p2) / daysInPeriod)"

text \<open>
  \<open>fixing\<close> calls \<open>forecastFixing\<close> when the date needs a forecast, and \<open>forecastFixing\<close>
  calls \<open>fixing\<close> at the base date of the curve once it has checked that the base date
  needs none; hence the recursion ends.
\<close>

function ZeroInflationIndex_fixing :: "Env \<Rightarrow> ZeroInflationIndex \<Rightarrow> Date \<Rightarrow> Error + real"
  and ZeroInflationIndex_forecastFixing :: "Env \<Rightarrow> ZeroInflationIndex \<Rightarrow> Date \<Rightarrow> Error + real"
where
  "ZeroInflationIndex_fixing E idx fixingDate =
     (if \<not> needsForecast E idx fixingDate then
        (let p = inflationPeriod E fixingDate (frequency idx);
             I1 = ts_at (timeSeries idx) (fst p)
         in if I1 = Null_Real then Inl (MissingFixing (name idx) (fst p))
            else if interpolated idx \<and> fixingDate > fst p then
              (let I2 = ts_at (timeSeries idx) (snd p + 1)
               in if I2 = Null_Real then Inl (MissingFixing (name idx) (snd p + 1))
                  else (case zeroInflation idx of
                          None \<Rightarrow> Inl UnboundCurve
                        | Some c \<Rightarrow>
                            Inr (I1 + (I2 - I1) *
                              interpolationCoefficient E (frequency idx) (observationLag c) fixingDate)))
            else Inr I1)
      else ZeroInflationIndex_forecastFixing E idx fixingDate)"
| "ZeroInflationIndex_forecastFixing E idx fixingDate =
     (case zeroInflation idx of
        None \<Rightarrow> Inl UnboundCurve
      | Some c \<Rightarrow>
          if needsForecast E idx (baseDate c) then Inl (InvalidBaseDate (name idx) (baseDate c))
          else (case ZeroInflationIndex_fixing E idx (baseDate c) of
                  Inl e \<Rightarrow> Inl e
                | Inr baseFixing \<Rightarrow>
                    (let p = inflationPeriod E fixingDate (frequency idx);
                         firstDateInPeriod = fst p;
                         Z1 = zeroRate c firstDateInPeriod (Period 0 Days) False;
                         t1 = inflationYearFraction E (frequency idx) (interpolated idx)
                                (dayCounter c) (baseDate c) firstDateInPeriod;
                         I1 = baseFixing * pow E (1 + Z1) t1
                     in if interpolated idx \<and> fixingDate > firstDateInPeriod then
                          (let firstDateInNextPeriod = snd p + 1;
                               Z2 = zeroRate c firstDateInNextPeriod (Period 0 Days) False;
                               t2 = inflationYearFraction E (frequency idx) (interpolated idx)
                                      (dayCounter c) (baseDate c) firstDateInNextPeriod;
                               I2 = baseFixing * pow E (1 + Z2) t2
                           in Inr (I1 + (I2 - I1) *
                                interpolationCoefficient E (frequency idx) (observationLag c) fixingDate))
                        else Inr I1)))"
  by pat_completeness auto
termination
  by (relation "measure (\<lambda>x. case x of
                   Inl (E, idx, d) \<Rightarrow> if needsForecast E idx d then 2 else 0
                 | Inr _ \<Rightarrow> 1)") auto

declare ZeroInflationIndex_fixing.simps [simp del]
declare ZeroInflationIndex_forecastFixing.simps [simp del]

text \<open>
  The series keys that one call reads itself, in the order of the reads: the probe of
  \<open>needsForecast\<close> in the ambiguous window, and the lookups of the historical branch of
  \<open>fixing\<close> (the second one is reached only when the first entry is present).
\<close>

definition needsForecast_lookups :: "Env \<Rightarrow> 'a InflationIndex_scheme \<Rightarrow> Date \<Rightarrow> Date list" where
  "needsForecast_lookups E idx fixingDate =
     (let today = evaluationDate E;
          latest = latestNeededDate E idx fixingDate
      in if latest \<le> historicalFixingKnown E idx then []
         else if latest > today then []
         else [mkDate E 1 (month E latest) (year E latest)])"

definition ZeroInflationIndex_fixing_lookups :: "Env \<Rightarrow> ZeroInflationIndex \<Rightarrow> Date \<Rightarrow> Date list" where
  "ZeroInflationIndex_fixing_lookups E idx fixingDate =
     (if \<not> needsForecast E idx fixingDate then
        (let p = inflationPeriod E fixingDate (frequency idx);
             I1 = ts_at (timeSeries idx) (fst p)
         in fst p #
            (if I1 = Null_Real then []
             else if interpolated idx \<and> fixingDate > fst p then [snd p + 1]
             else []))
      else [])"

section \<open>Lagged CPI interpolation\<close>

text \<open>
  Modelled from the spec: the tag \<open>CPI::InterpolationType\<close> is an enumeration declared
  outside the source files at hand, with the values \<open>AsIndex\<close>, \<open>Flat\<close> and \<open>Linear\<close>.
  A tag is an integer, so that a value outside the enumeration can reach the \<open>default\<close>
  branch of the \<open>switch\<close>.
\<close>

type_synonym InterpolationType = int

definition AsIndex :: InterpolationType where "AsIndex = 0"

definition Flat :: InterpolationType where "Flat = 1"

definition Linear :: InterpolationType where "Linear = 2"

definition CPI_laggedFixing ::
  "Env \<Rightarrow> ZeroInflationIndex \<Rightarrow> Date \<Rightarrow> Period \<Rightarrow> InterpolationType \<Rightarrow> Error + real" where
  "CPI_laggedFixing E index date lag interpolationType =
     (if interpolationType = AsIndex then
        ZeroInflationIndex_fixing E index (minus_Period E date lag)
      else if interpolationType = Flat then
        (let fixingPeriod = inflationPeriod E (minus_Period E date lag) (frequency index)
         in ZeroInflationIndex_fixing E index (fst fixingPeriod))
      else if interpolationType = Linear then
        (let fixingPeriod = inflationPeriod E (minus_Period E date lag) (frequency index);
             interpolationPeriod = inflationPeriod E date (frequency index)
         in if date = fst interpolationPeriod then
              ZeroInflationIndex_fixing E index (fst fixingPeriod)
            else
              (let oneDay = Period 1 Days
               in case ZeroInflationIndex_fixing E index (fst fixingPeriod) of
                    Inl e \<Rightarrow> Inl e
                  | Inr I0 \<Rightarrow>
                      (case ZeroInflationIndex_fixing E index (plus_Period E (snd fixingPeriod) oneDay) of
                         Inl e \<Rightarrow> Inl e
                       | Inr I1 \<Rightarrow>
                           Inr (I0 + (I1 - I0) * real_of_int (date - fst interpolationPeriod) /
                                  real_of_int ((plus_Period E (snd interpolationPeriod) oneDay)
                                                 - fst interpolationPeriod)))))
      else Inl (UnsupportedInterpolation interpolationType))"

definition effectiveInterpolationType :: "ZeroInflationIndex \<Rightarrow> InterpolationType \<Rightarrow> InterpolationType" where
  "effectiveInterpolationType index t =
     (if t = AsIndex then (if interpolated index then Linear else Flat) else t)"

section \<open>Historical fixing store\<close>

text \<open>
  Modelled from the spec: \<open>Index::addFixings\<close> is outside the source files at hand. It
  writes each value at its date; it fails with DuplicateFixing, reporting the conflicting
  date, if a target day already holds a different fixing and \<open>forceOverwrite\<close> is false.
\<close>

fun Index_addFixings ::
  "string \<Rightarrow> TimeSeries \<Rightarrow> Date list \<Rightarrow> real list \<Rightarrow> bool \<Rightarrow> Error + TimeSeries" where
  "Index_addFixings tag h (d # ds) (v # vs) forceOverwrite =
     (let currentValue = ts_at h d
      in if forceOverwrite \<or> currentValue = Null_Real
         then Index_addFixings tag (h(d \<mapsto> v)) ds vs forceOverwrite
         else if currentValue = v then Index_addFixings tag h ds vs forceOverwrite
         else Inl (DuplicateFixing tag d))"
| "Index_addFixings tag h [] vs forceOverwrite = Inr h"
| "Index_addFixings tag h ds [] forceOverwrite = Inr h"

text \<open>
  \<open>addFixing\<close> fills one vector with the days of the period and one with the value; the
  number of days is a \<open>Size\<close>, an unsigned 64-bit integer.
\<close>

definition InflationIndex_addFixing ::
  "Env \<Rightarrow> 'a InflationIndex_scheme \<Rightarrow> Date \<Rightarrow> real \<Rightarrow> bool \<Rightarrow> Error + 'a InflationIndex_scheme" where
  "InflationIndex_addFixing E idx fixingDate fixing forceOverwrite =
     (let lim = inflationPeriod E fixingDate (frequency idx);
          n = nat ((snd lim - fst lim + 1) mod 2 ^ 64);
          dates = map (\<lambda>i. fst lim + int i) [0..<n];
          rates = replicate n fixing
      in case Index_addFixings (name idx) (timeSeries idx) dates rates forceOverwrite of
           Inl e \<Rightarrow> Inl e
         | Inr h \<Rightarrow> Inr (idx\<lparr>timeSeries := h\<rparr>))"

text \<open>
  \<open>addFixing\<close> followed by \<open>needsForecast\<close>, by \<open>fixing\<close> or by a second \<open>addFixing\<close>
  on the index it has updated.
\<close>

definition addFixing_then_needsForecast ::
  "Env \<Rightarrow> ZeroInflationIndex \<Rightarrow> Date \<Rightarrow> real \<Rightarrow> bool \<Rightarrow> Date \<Rightarrow> Error + bool" where
  "addFixing_then_needsForecast E idx fixingDate v forceOverwrite d =
     (case InflationIndex_addFixing E idx fixingDate v forceOverwrite of
        Inl e \<Rightarrow> Inl e
      | Inr idx' \<Rightarrow> Inr (needsForecast E idx' d))"

definition addFixing_twice ::
  "Env \<Rightarrow> ZeroInflationIndex \<Rightarrow> Date \<Rightarrow> real \<Rightarrow> Date \<Rightarrow> real \<Rightarrow> bool
     \<Rightarrow> Error + ZeroInflationIndex" where
  "addFixing_twice E idx fixingDate v fixingDate' v' forceOverwrite =
     (case InflationIndex_addFixing E idx fixingDate v False of
        Inl e \<Rightarrow> Inl e
      | Inr idx' \<Rightarrow> InflationIndex_addFixing E idx' fixingDate' v' forceOverwrite)"

definition addFixing_then_fixing ::
  "Env \<Rightarrow> ZeroInflationIndex \<Rightarrow> Date \<Rightarrow> real \<Rightarrow> bool \<Rightarrow> Date \<Rightarrow> Error + real" where
  "addFixing_then_fixing E idx fixingDate v forceOverwrite d =
     (case InflationIndex_addFixing E idx fixingDate v forceOverwrite of
        Inl e \<Rightarrow> Inl e
      | Inr idx' \<Rightarrow> ZeroInflationIndex_fixing E idx' d)"

section \<open>Year-on-year fixing engine\<close>

definition YoYInflationIndex_forecastFixing :: "Env \<Rightarrow> YoYInflationIndex \<Rightarrow> Date \<Rightarrow> Error + real" where
  "YoYInflationIndex_forecastFixing E idx fixingDate =
     (let d = (if interpolated idx then fixingDate
               else fst (inflationPeriod E fixingDate (frequency idx)))
      in case yoyInflation idx of
           None \<Rightarrow> Inl UnboundCurve
         | Some c \<Rightarrow> Inr (yoyRate c d (Period 0 Days)))"

text \<open>The date from which the year-on-year engine forecasts.\<close>

definition mustForecastOn :: "Env \<Rightarrow> 'a InflationIndex_scheme \<Rightarrow> Date" where
  "mustForecastOn E idx =
     (let today = evaluationDate E;
          todayMinusLag = minus_Period E today (availabilityLag idx);
          lim = inflationPeriod E todayMinusLag (frequency idx);
          lastFix = fst lim - 1;
          flatMustForecastOn = lastFix + 1;
          interpMustForecastOn = minus_Period E (lastFix + 1) (Period_of (frequency idx))
      in if interpolated idx then interpMustForecastOn else flatMustForecastOn)"

text \<open>
  The four historical branches read the series and check each value in the order of the
  source; a missing value fails with the date that the message of that check prints.
\<close>

definition YoYInflationIndex_fixing :: "Env \<Rightarrow> YoYInflationIndex \<Rightarrow> Date \<Rightarrow> Error + real" where
  "YoYInflationIndex_fixing E idx fixingDate =
     (let today = evaluationDate E;
          todayMinusLag = minus_Period E today (availabilityLag idx);
          lim = inflationPeriod E todayMinusLag (frequency idx);
          lastFix = fst lim - 1;
          flatMustForecastOn = lastFix + 1;
          interpMustForecastOn = minus_Period E (lastFix + 1) (Period_of (frequency idx));
          ts = timeSeries idx
      in if interpolated idx \<and> fixingDate \<ge> interpMustForecastOn then
           YoYInflationIndex_forecastFixing E idx fixingDate
         else if \<not> interpolated idx \<and> fixingDate \<ge> flatMustForecastOn then
           YoYInflationIndex_forecastFixing E idx fixingDate
         else if ratio idx then
           (if interpolated idx then
              (let lim = inflationPeriod E fixingDate (frequency idx);
                   fixMinus1Y = advance E fixingDate (Period (- 1) Years);
                   limBef = inflationPeriod E fixMinus1Y (frequency idx);
                   dp = real_of_int (snd lim + 1 - fst lim);
                   dpBef = real_of_int (snd limBef + 1 - fst limBef);
                   dl = real_of_int (fixingDate - fst lim);
                   dlBef = real_of_int (fixMinus1Y - fst limBef);
                   limFirstFix = ts_at ts (fst lim);
                   limSecondFix = ts_at ts (snd lim + 1);
                   limBefFirstFix = ts_at ts (fst limBef);
                   limBefSecondFix = ts_at ts (snd limBef + 1)
               in if limFirstFix = Null_Real then Inl (MissingFixing (name idx) (fst lim))
                  else if limSecondFix = Null_Real then Inl (MissingFixing (name idx) (snd lim + 1))
                  else if limBefFirstFix = Null_Real then Inl (MissingFixing (name idx) (fst limBef))
                  else if limBefSecondFix = Null_Real
                       then Inl (MissingFixing (name idx) (snd limBef + 1))
                  else (let linearNow = limFirstFix + (limSecondFix - limFirstFix) * dl / dp;
                            linearBef = limBefFirstFix
                                          + (limBefSecondFix - limBefFirstFix) * dlBef / dpBef;
                            wasYES = linearNow / linearBef - 1
                        in Inr wasYES))
            else
              (let lim = inflationPeriod E fixingDate (frequency idx);
                   pastFixing = ts_at ts (fst lim);
                   previousDate = minus_Period E fixingDate (Period 1 Years);
                   limBef = inflationPeriod E previousDate (frequency idx);
                   previousFixing = ts_at ts (fst limBef)
               in if pastFixing = Null_Real then Inl (MissingFixing (name idx) fixingDate)
                  else if previousFixing = Null_Real
                       then Inl (MissingFixing (name idx) (fst limBef))
                  else Inr (pastFixing / previousFixing - 1)))
         else
           (if interpolated idx then
              (let lim = inflationPeriod E fixingDate (frequency idx);
                   dp = real_of_int (snd lim + 1 - fst lim);
                   dl = real_of_int (fixingDate - fst lim);
                   limFirstFix = ts_at ts (fst lim);
                   limSecondFix = ts_at ts (snd lim + 1)
               in if limFirstFix = Null_Real then Inl (MissingFixing (name idx) (fst lim))
                  else if limSecondFix = Null_Real then Inl (MissingFixing (name idx) (snd lim + 1))
                  else (let linearNow = limFirstFix + (limSecondFix - limFirstFix) * dl / dp
                        in Inr linearNow))
            else
              (let lim = inflationPeriod E fixingDate (frequency idx);
                   pastFixing = ts_at ts (fst lim)
               in if pastFixing = Null_Real then Inl (MissingFixing (name idx) (fst lim))
                  else Inr pastFixing)))"

text \<open>
  The series keys read by the historical branch of the year-on-year engine, in the order
  of the reads; a read is reached only when the entries before it are present.
\<close>

definition YoYInflationIndex_fixing_lookups :: "Env \<Rightarrow> YoYInflationIndex \<Rightarrow> Date \<Rightarrow> Date list" where
  "YoYInflationIndex_fixing_lookups E idx fixingDate =
     (let ts = timeSeries idx;
          lim = inflationPeriod E fixingDate (frequency idx)
      in if fixingDate \<ge> mustForecastOn E idx then []
         else if ratio idx then
           (if interpolated idx then
              (let fixMinus1Y = advance E fixingDate (Period (- 1) Years);
                   limBef = inflationPeriod E fixMinus1Y (frequency idx)
               in fst lim #
                  (if ts_at ts (fst lim) = Null_Real then []
                   else (snd lim + 1) #
                     (if ts_at ts (snd lim + 1) = Null_Real then []
                      else fst limBef #
                        (if ts_at ts (fst limBef) = Null_Real then [] else [snd limBef + 1]))))
            else
              (let previousDate = minus_Period E fixingDate (Period 1 Years);
                   limBef = inflationPeriod E previousDate (frequency idx)
               in fst lim # (if ts_at ts (fst lim) = Null_Real then [] else [fst limBef])))
         else
           (if interpolated idx then
              fst lim # (if ts_at ts (fst lim) = Null_Real then [] else [snd lim + 1])
            else [fst lim]))"

section \<open>The Gregorian calendar on serial day numbers\<close>

text \<open>
  Modelled from the spec: the calendar and period utilities are outside the source files
  at hand. This is the proleptic Gregorian calendar on the library's serial numbers
  (serial 367 is 1 January 1901), with the inclusive \<open>[start, end]\<close> range of the
  publication period that contains a date. It is the instance of the environment at which
  the engines are evaluated on concrete dates.
\<close>

definition serial_of_civil :: "int \<Rightarrow> int \<Rightarrow> int \<Rightarrow> Date" where
  "serial_of_civil y m d =
     (let y' = (if m \<le> 2 then y - 1 else y);
          era = y' div 400;
          yoe = y' - era * 400;
          doy = (153 * (if m > 2 then m - 3 else m + 9) + 2) div 5 + d - 1;
          doe = yoe * 365 + yoe div 4 - yoe div 100 + doy
      in era * 146097 + doe - 719468 + 25569)"

definition civil_of_serial :: "Date \<Rightarrow> int \<times> int \<times> int" where
  "civil_of_serial s =
     (let z = s - 25569 + 719468;
          era = z div 146097;
          doe = z - era * 146097;
          yoe = (doe - doe div 1460 + doe div 36524 - doe div 146096) div 365;
          doy = doe - (365 * yoe + yoe div 4 - yoe div 100);
          mp = (5 * doy + 2) div 153;
          d = doy - (153 * mp + 2) div 5 + 1;
          m = (if mp < 10 then mp + 3 else mp - 9);
          y = yoe + era * 400
      in (if m \<le> 2 then y + 1 else y, m, d))"

definition greg_year :: "Date \<Rightarrow> int" where
  "greg_year s = fst (civil_of_serial s)"

definition greg_month :: "Date \<Rightarrow> int" where
  "greg_month s = fst (snd (civil_of_serial s))"

definition greg_day :: "Date \<Rightarrow> int" where
  "greg_day s = snd (snd (civil_of_serial s))"

definition greg_mkDate :: "int \<Rightarrow> int \<Rightarrow> int \<Rightarrow> Date" where
  "greg_mkDate d m y = serial_of_civil y m d"

definition isLeap :: "int \<Rightarrow> bool" where
  "isLeap y = (y mod 4 = 0 \<and> (y mod 100 \<noteq> 0 \<or> y mod 400 = 0))"

definition monthLength :: "int \<Rightarrow> int \<Rightarrow> int" where
  "monthLength y m =
     (if m = 2 then (if isLeap y then 29 else 28)
      else if m = 4 \<or> m = 6 \<or> m = 9 \<or> m = 11 then 30 else 31)"

definition endOfMonth :: "Date \<Rightarrow> Date" where
  "endOfMonth s = greg_mkDate (monthLength (greg_year s) (greg_month s)) (greg_month s) (greg_year s)"

text \<open>
  \<open>d + p\<close>: days and weeks move the serial number; months and years keep the day of the
  month, cut down to the length of the month reached.
\<close>

fun greg_plus :: "Date \<Rightarrow> Period \<Rightarrow> Date" where
  "greg_plus s (Period n Days) = s + n"
| "greg_plus s (Period n Weeks) = s + 7 * n"
| "greg_plus s (Period n Months) =
     (let k = greg_year s * 12 + (greg_month s - 1) + n;
          y = k div 12;
          m = k mod 12 + 1
      in greg_mkDate (min (greg_day s) (monthLength y m)) m y)"
| "greg_plus s (Period n Years) =
     (let y = greg_year s + n;
          m = greg_month s
      in greg_mkDate (min (greg_day s) (monthLength y m)) m y)"

fun greg_inflationPeriod :: "Date \<Rightarrow> Frequency \<Rightarrow> Date \<times> Date" where
  "greg_inflationPeriod s Annual =
     (greg_mkDate 1 1 (greg_year s), endOfMonth (greg_mkDate 1 12 (greg_year s)))"
| "greg_inflationPeriod s Semiannual =
     (let startMonth = 6 * ((greg_month s - 1) div 6) + 1
      in (greg_mkDate 1 startMonth (greg_year s),
          endOfMonth (greg_mkDate 1 (startMonth + 5) (greg_year s))))"
| "greg_inflationPeriod s Quarterly =
     (let startMonth = 3 * ((greg_month s - 1) div 3) + 1
      in (greg_mkDate 1 startMonth (greg_year s),
          endOfMonth (greg_mkDate 1 (startMonth + 2) (greg_year s))))"
| "greg_inflationPeriod s Monthly =
     (greg_mkDate 1 (greg_month s) (greg_year s),
      endOfMonth (greg_mkDate 1 (greg_month s) (greg_year s)))"

text \<open>
  The inflation year fraction, with every day counter read as Actual/365 (Fixed): between
  the dates themselves for an interpolated index, between the starts of their periods
  otherwise.
\<close>

definition greg_inflationYearFraction ::
  "Frequency \<Rightarrow> bool \<Rightarrow> DayCounter \<Rightarrow> Date \<Rightarrow> Date \<Rightarrow> real" where
  "greg_inflationYearFraction f indexIsInterpolated dc d1 d2 =
     (if indexIsInterpolated then real_of_int (d2 - d1) / 365
      else real_of_int (fst (greg_inflationPeriod d2 f) - fst (greg_inflationPeriod d1 f)) / 365)"

definition gregorian :: "Date \<Rightarrow> Env" where
  "gregorian today =
     \<lparr> evaluationDate = today,
       inflationPeriod = greg_inflationPeriod,
       plus_Period = greg_plus,
       advance = greg_plus,
       month = greg_month,
       year = greg_year,
       mkDate = greg_mkDate,
       inflationYearFraction = greg_inflationYearFraction,
       pow = (powr) \<rparr>"

declare greg_plus.simps [simp del]
declare greg_inflationPeriod.simps [simp del]

section \<open>Sample indexes, curves and series\<close>

text \<open>
  A series that holds every listed fixing at each day of its inclusive range of dates, as
  the store keeps it.
\<close>

fun fixings :: "(Date \<times> Date \<times> real) list \<Rightarrow> TimeSeries" where
  "fixings [] = Map.empty"
| "fixings ((a, b, v) # r) = (\<lambda>k. if a \<le> k \<and> k \<le> b then Some v else fixings r k)"

definition flatCurve :: "real \<Rightarrow> Date \<Rightarrow> Period \<Rightarrow> ZeroInflationTermStructure" where
  "flatCurve z bd lag =
     \<lparr> baseDate = bd, observationLag = lag, dayCounter = ''Actual/365 (Fixed)'',
       zeroRate = (\<lambda>d p extrapolate. z) \<rparr>"

definition zeroIndex ::
  "bool \<Rightarrow> Frequency \<Rightarrow> Period \<Rightarrow> TimeSeries \<Rightarrow> ZeroInflationTermStructure option
     \<Rightarrow> ZeroInflationIndex" where
  "zeroIndex interp f lag ts curve =
     \<lparr> familyName = ''RPI'', region = ''UK'', revised = False, interpolated = interp,
       frequency = f, availabilityLag = lag, currency = ''GBP'', timeSeries = ts,
       zeroInflation = curve \<rparr>"

definition yoyIndex ::
  "bool \<Rightarrow> bool \<Rightarrow> Frequency \<Rightarrow> Period \<Rightarrow> TimeSeries \<Rightarrow> YoYInflationTermStructure option
     \<Rightarrow> YoYInflationIndex" where
  "yoyIndex interp r f lag ts curve =
     \<lparr> familyName = ''YY_RPI'', region = ''UK'', revised = False, interpolated = interp,
       frequency = f, availabilityLag = lag, currency = ''GBP'', timeSeries = ts,
       ratio = r, yoyInflation = curve \<rparr>"

section \<open>Calendar facts at the dates of the examples\<close>

lemma dates_2020:
  "greg_mkDate 15 3 2020 = 43905" "greg_mkDate 20 1 2020 = 43850"
  "greg_mkDate 20 12 2019 = 43819" "greg_mkDate 20 3 2020 = 43910"
  "greg_mkDate 1 1 2020 = 43831" "greg_mkDate 31 1 2020 = 43861"
  "greg_mkDate 1 2 2020 = 43862" "greg_mkDate 20 2 2020 = 43881"
  by code_simp+

lemma lag_2020_03_15:
  "greg_plus 43905 (Period (- 1) Months) = 43876"
  "greg_inflationPeriod 43876 Monthly = (43862, 43890)"
  "greg_inflationPeriod 43876 Quarterly = (43831, 43921)"
  by code_simp+

lemma periods_2020:
  "greg_inflationPeriod 43850 Monthly = (43831, 43861)"
  "greg_inflationPeriod 43819 Monthly = (43800, 43830)"
  "greg_inflationPeriod 43910 Monthly = (43891, 43921)"
  "greg_inflationPeriod 43881 Quarterly = (43831, 43921)"
  "greg_inflationPeriod 43862 Quarterly = (43831, 43921)"
  by code_simp+

lemma plus_2020:
  "greg_plus 43850 (Period 1 Months) = 43881"
  "greg_plus 43819 (Period 1 Months) = 43850"
  "greg_plus 43910 (Period 1 Months) = 43941"
  "greg_month 43881 = 2" "greg_year 43881 = 2020"
  by code_simp+

section \<open>Classification of a fixing date\<close>

text \<open>
  C1, as the code has it. \<open>needsForecast(d)\<close> is decided on \<open>latestNeededDate\<close>, which is
  \<open>d\<close> itself for an index that is not interpolated or at the start of a period, and
  \<open>d\<close> plus one publication period otherwise. So \<open>needsForecast(d)\<close> is false for every
  \<open>d\<close> strictly before \<open>historicalFixingKnown\<close> when the index is not interpolated or
  \<open>d\<close> starts its period, and false whenever \<open>latestNeededDate\<close> is on or before
  \<open>historicalFixingKnown\<close>; it is true for every \<open>d\<close> strictly after today, as long as
  \<open>historicalFixingKnown\<close> is not after today (the availability lag is not negative) and
  adding a publication period does not move a date back.
\<close>

theorem needsForecast_classification:
  "((\<not> interpolated idx \<or> d \<le> fst (inflationPeriod E d (frequency idx)))
      \<and> d < historicalFixingKnown E idx \<longrightarrow> \<not> needsForecast E idx d) \<and>
   (latestNeededDate E idx d \<le> historicalFixingKnown E idx \<longrightarrow> \<not> needsForecast E idx d) \<and>
   (historicalFixingKnown E idx \<le> evaluationDate E \<and> evaluationDate E < d
      \<and> d \<le> latestNeededDate E idx d \<longrightarrow> needsForecast E idx d)"
  by (auto simp: needsForecast_def latestNeededDate_def Let_def)

theorem needsForecast_classification_witness:
  "(greg_mkDate 20 1 2020
      < historicalFixingKnown (gregorian (greg_mkDate 15 3 2020))
          (zeroIndex False Monthly (Period 1 Months) Map.empty None)
    \<and> \<not> needsForecast (gregorian (greg_mkDate 15 3 2020))
          (zeroIndex False Monthly (Period 1 Months) Map.empty None) (greg_mkDate 20 1 2020)) \<and>
   (latestNeededDate (gregorian (greg_mkDate 15 3 2020))
          (zeroIndex True Monthly (Period 1 Months) Map.empty None) (greg_mkDate 20 12 2019)
      \<le> historicalFixingKnown (gregorian (greg_mkDate 15 3 2020))
          (zeroIndex True Monthly (Period 1 Months) Map.empty None)
    \<and> \<not> needsForecast (gregorian (greg_mkDate 15 3 2020))
          (zeroIndex True Monthly (Period 1 Months) Map.empty None) (greg_mkDate 20 12 2019)) \<and>
   (evaluationDate (gregorian (greg_mkDate 15 3 2020)) < greg_mkDate 20 3 2020
    \<and> needsForecast (gregorian (greg_mkDate 15 3 2020))
          (zeroIndex True Monthly (Period 1 Months) Map.empty None) (greg_mkDate 20 3 2020))"
proof -
  let ?E = "gregorian (greg_mkDate 15 3 2020)"
  let ?flat = "zeroIndex False Monthly (Period 1 Months) Map.empty None"
  let ?interp = "zeroIndex True Monthly (Period 1 Months) Map.empty None"
  have known: "historicalFixingKnown ?E ?flat = 43861" "historicalFixingKnown ?E ?interp = 43861"
    by (simp_all add: historicalFixingKnown_def minus_Period_def gregorian_def zeroIndex_def
          dates_2020 lag_2020_03_15)
  have latest: "latestNeededDate ?E ?interp 43819 = 43850" "latestNeededDate ?E ?interp 43910 = 43941"
    by (simp_all add: latestNeededDate_def gregorian_def zeroIndex_def periods_2020 plus_2020)
  have today: "evaluationDate ?E = 43905"
    by (simp add: gregorian_def dates_2020)
  have a: "\<not> needsForecast ?E ?flat 43850"
    using needsForecast_classification [of ?flat 43850 ?E] known by (simp add: zeroIndex_def)
  have b: "\<not> needsForecast ?E ?interp 43819"
    using needsForecast_classification [of ?interp 43819 ?E] known latest by simp
  have c: "needsForecast ?E ?interp 43910"
    using needsForecast_classification [of ?interp 43910 ?E] known latest today by simp
  show ?thesis
    using a b c known latest today by (simp add: dates_2020)
qed

text \<open>
  C1 as stated fails for an interpolated index: on 15 March 2020, with a lag of one month,
  20 January 2020 is strictly before \<open>historicalFixingKnown\<close> (31 January 2020), but the
  interpolation needs the February fixing, which the series does not hold yet.
\<close>

theorem needsForecast_interpolated_counterexample:
  "greg_mkDate 20 1 2020
     < historicalFixingKnown (gregorian (greg_mkDate 15 3 2020))
         (zeroIndex True Monthly (Period 1 Months)
            (fixings [(greg_mkDate 1 1 2020, greg_mkDate 31 1 2020, 100)]) None)
   \<and> needsForecast (gregorian (greg_mkDate 15 3 2020))
         (zeroIndex True Monthly (Period 1 Months)
            (fixings [(greg_mkDate 1 1 2020, greg_mkDate 31 1 2020, 100)]) None)
         (greg_mkDate 20 1 2020)"
  by (simp add: needsForecast_def historicalFixingKnown_def latestNeededDate_def gregorian_def
        zeroIndex_def minus_Period_def ts_at_def dates_2020 lag_2020_03_15 periods_2020 plus_2020)

section \<open>The zero engine, branch by branch\<close>

lemma fixing_historical:
  "\<not> needsForecast E idx fixingDate \<Longrightarrow>
   ZeroInflationIndex_fixing E idx fixingDate =
     (let p = inflationPeriod E fixingDate (frequency idx);
          I1 = ts_at (timeSeries idx) (fst p)
      in if I1 = Null_Real then Inl (MissingFixing (name idx) (fst p))
         else if interpolated idx \<and> fixingDate > fst p then
           (let I2 = ts_at (timeSeries idx) (snd p + 1)
            in if I2 = Null_Real then Inl (MissingFixing (name idx) (snd p + 1))
               else (case zeroInflation idx of
                       None \<Rightarrow> Inl UnboundCurve
                     | Some c \<Rightarrow>
                         Inr (I1 + (I2 - I1) *
                           interpolationCoefficient E (frequency idx) (observationLag c) fixingDate)))
         else Inr I1)"
  by (simp add: ZeroInflationIndex_fixing.simps)

lemma fixing_forecast:
  "needsForecast E idx fixingDate \<Longrightarrow>
   ZeroInflationIndex_fixing E idx fixingDate = ZeroInflationIndex_forecastFixing E idx fixingDate"
  by (simp add: ZeroInflationIndex_fixing.simps)

lemma forecastFixing_invalid:
  "zeroInflation idx = Some c \<Longrightarrow> needsForecast E idx (baseDate c) \<Longrightarrow>
   ZeroInflationIndex_forecastFixing E idx d = Inl (InvalidBaseDate (name idx) (baseDate c))"
  by (simp add: ZeroInflationIndex_forecastFixing.simps)

lemma fixing_historical_error:
  "\<not> needsForecast E idx d \<Longrightarrow> ZeroInflationIndex_fixing E idx d = Inl e \<Longrightarrow>
   (\<exists>k. e = MissingFixing (name idx) k) \<or> e = UnboundCurve"
  by (auto simp: fixing_historical Let_def split: if_splits option.splits)

lemma not_Null_Real: "(100::real) \<noteq> Null_Real" "(102::real) \<noteq> Null_Real" "(110::real) \<noteq> Null_Real"
  by (simp_all add: Null_Real_def)

lemma dates_2019:
  "greg_mkDate 1 12 2019 = 43800" "greg_mkDate 31 12 2019 = 43830"
  "greg_plus 43819 (Period 3 Months) = 43910"
  by code_simp+

text \<open>
  C2. For an interpolated index and a fixing date classified as historical that lies
  strictly after the start of its period \<open>p\<close>, with both fixings stored and the curve
  bound: \<open>fixing(fixingDate) = I1 + (I2 - I1) * w\<close>, where \<open>I1\<close> and \<open>I2\<close> are the stored
  fixings at \<open>p.start\<close> and \<open>p.end + 1\<close>, and \<open>w\<close> is taken on the period \<open>p2\<close> that
  contains \<open>fixingDate + observationLag\<close>:
  \<open>w = (fixingDate + observationLag - p2.start) / (p2.end + 1 - p2.start)\<close>.
\<close>

theorem ZeroInflationIndex_fixing_interpolated:
  assumes "interpolated idx"
    and "\<not> needsForecast E idx fixingDate"
    and "p = inflationPeriod E fixingDate (frequency idx)"
    and "fst p < fixingDate"
    and "zeroInflation idx = Some c"
    and "I1 = ts_at (timeSeries idx) (fst p)" and "I1 \<noteq> Null_Real"
    and "I2 = ts_at (timeSeries idx) (snd p + 1)" and "I2 \<noteq> Null_Real"
    and "observationDate = plus_Period E fixingDate (observationLag c)"
    and "p2 = inflationPeriod E observationDate (frequency idx)"
    and "w = real_of_int (observationDate - fst p2) / real_of_int ((snd p2 + 1) - fst p2)"
  shows "ZeroInflationIndex_fixing E idx fixingDate = Inr (I1 + (I2 - I1) * w)"
  using assms by (simp add: fixing_historical interpolationCoefficient_def Let_def)

theorem ZeroInflationIndex_fixing_interpolated_witness:
  "ZeroInflationIndex_fixing (gregorian (greg_mkDate 15 3 2020))
     (zeroIndex True Monthly (Period 1 Months)
        (fixings [(greg_mkDate 1 12 2019, greg_mkDate 31 12 2019, 100),
                  (greg_mkDate 1 1 2020, greg_mkDate 31 1 2020, 102)])
        (Some (flatCurve 0.02 (greg_mkDate 1 12 2019) (Period 3 Months))))
     (greg_mkDate 20 12 2019)
   = Inr (100 + (102 - 100) * (19 / 31))"
proof -
  let ?E = "gregorian (greg_mkDate 15 3 2020)"
  let ?c = "flatCurve 0.02 (greg_mkDate 1 12 2019) (Period 3 Months)"
  let ?idx = "zeroIndex True Monthly (Period 1 Months)
        (fixings [(greg_mkDate 1 12 2019, greg_mkDate 31 12 2019, 100),
                  (greg_mkDate 1 1 2020, greg_mkDate 31 1 2020, 102)]) (Some ?c)"
  have hist: "\<not> needsForecast ?E ?idx 43819"
    by (simp add: needsForecast_def historicalFixingKnown_def latestNeededDate_def gregorian_def
          zeroIndex_def minus_Period_def dates_2020 lag_2020_03_15 periods_2020 plus_2020)
  show ?thesis
    using ZeroInflationIndex_fixing_interpolated [of ?idx ?E 43819 "(43800, 43830)" ?c 100 102
        43910 "(43891, 43921)" "19 / 31"] hist not_Null_Real
    by (simp add: gregorian_def zeroIndex_def flatCurve_def ts_at_def dates_2020 dates_2019
          periods_2020)
qed

lemma fixing_Inr_historical:
  "zeroInflation idx = Some c \<Longrightarrow> ZeroInflationIndex_fixing E idx (baseDate c) = Inr b \<Longrightarrow>
   \<not> needsForecast E idx (baseDate c)"
  using fixing_forecast [of E idx "baseDate c"] forecastFixing_invalid [of idx c E "baseDate c"]
  by auto

text \<open>
  C5. For an index that is not interpolated, over a curve that returns the same zero rate
  \<open>z\<close> at every date: \<open>forecastFixing(d) = baseFixing * (1 + z)^t1\<close>, where
  \<open>baseFixing = fixing(baseDate)\<close> and \<open>t1\<close> is the inflation year fraction from the base
  date of the curve to the start of the period that contains \<open>d\<close>.
\<close>

theorem forecastFixing_flat_curve:
  assumes "\<not> interpolated idx"
    and "zeroInflation idx = Some c"
    and "\<forall>d lag extrapolate. zeroRate c d lag extrapolate = z"
    and "ZeroInflationIndex_fixing E idx (baseDate c) = Inr baseFixing"
    and "t1 = inflationYearFraction E (frequency idx) (interpolated idx) (dayCounter c)
                (baseDate c) (fst (inflationPeriod E d (frequency idx)))"
  shows "ZeroInflationIndex_forecastFixing E idx d = Inr (baseFixing * pow E (1 + z) t1)"
proof -
  have "\<not> needsForecast E idx (baseDate c)"
    using assms(2,4) by (rule fixing_Inr_historical)
  then show ?thesis
    using assms by (simp add: ZeroInflationIndex_forecastFixing.simps Let_def)
qed

lemma dates_2020_06:
  "greg_mkDate 20 6 2020 = 44002" "greg_inflationPeriod 44002 Monthly = (43983, 44012)"
  "greg_inflationPeriod 43800 Monthly = (43800, 43830)"
  "greg_inflationPeriod 43983 Monthly = (43983, 44012)"
  by code_simp+

theorem forecastFixing_flat_curve_witness:
  "ZeroInflationIndex_forecastFixing (gregorian (greg_mkDate 15 3 2020))
     (zeroIndex False Monthly (Period 1 Months)
        (fixings [(greg_mkDate 1 12 2019, greg_mkDate 31 12 2019, 100)])
        (Some (flatCurve (2 / 100) (greg_mkDate 1 12 2019) (Period 3 Months))))
     (greg_mkDate 20 6 2020)
   = Inr (100 * (1 + 2 / 100) powr (183 / 365))"
proof -
  let ?E = "gregorian (greg_mkDate 15 3 2020)"
  let ?c = "flatCurve (2 / 100) (greg_mkDate 1 12 2019) (Period 3 Months)"
  let ?idx = "zeroIndex False Monthly (Period 1 Months)
        (fixings [(greg_mkDate 1 12 2019, greg_mkDate 31 12 2019, 100)]) (Some ?c)"
  have hist: "\<not> needsForecast ?E ?idx 43800"
    by (simp add: needsForecast_def historicalFixingKnown_def latestNeededDate_def gregorian_def
          zeroIndex_def minus_Period_def dates_2020 lag_2020_03_15)
  have base: "ZeroInflationIndex_fixing ?E ?idx 43800 = Inr 100"
    using hist not_Null_Real
    by (simp add: fixing_historical gregorian_def zeroIndex_def ts_at_def dates_2019 dates_2020_06)
  show ?thesis
    using forecastFixing_flat_curve [of ?idx ?c "2 / 100" ?E 100 "183 / 365" 44002] base
    by (simp add: gregorian_def zeroIndex_def flatCurve_def greg_inflationYearFraction_def
          dates_2019 dates_2020_06)
qed

text \<open>
  C6. With the curve bound, \<open>forecastFixing(d)\<close> fails with InvalidBaseDate exactly when
  \<open>needsForecast(baseDate)\<close> holds for the base date of the curve, and the error reports
  that date; otherwise it never fails with InvalidBaseDate: it hands on the failure of
  \<open>fixing(baseDate)\<close>, or compounds the curve's rates from the value of \<open>fixing(baseDate)\<close>.
\<close>

theorem forecastFixing_InvalidBaseDate:
  assumes "zeroInflation idx = Some c"
  shows "(needsForecast E idx (baseDate c) \<longrightarrow>
            ZeroInflationIndex_forecastFixing E idx d = Inl (InvalidBaseDate (name idx) (baseDate c))) \<and>
         (\<not> needsForecast E idx (baseDate c) \<longrightarrow>
            (\<forall>n b. ZeroInflationIndex_forecastFixing E idx d \<noteq> Inl (InvalidBaseDate n b)) \<and>
            (\<forall>e. ZeroInflationIndex_fixing E idx (baseDate c) = Inl e \<longrightarrow>
                   ZeroInflationIndex_forecastFixing E idx d = Inl e) \<and>
            (\<forall>baseFixing. ZeroInflationIndex_fixing E idx (baseDate c) = Inr baseFixing \<longrightarrow>
               ZeroInflationIndex_forecastFixing E idx d =
                 (let p = inflationPeriod E d (frequency idx);
                      I1 = baseFixing * pow E (1 + zeroRate c (fst p) (Period 0 Days) False)
                             (inflationYearFraction E (frequency idx) (interpolated idx)
                                (dayCounter c) (baseDate c) (fst p))
                  in if interpolated idx \<and> d > fst p then
                       (let I2 = baseFixing * pow E (1 + zeroRate c (snd p + 1) (Period 0 Days) False)
                                   (inflationYearFraction E (frequency idx) (interpolated idx)
                                      (dayCounter c) (baseDate c) (snd p + 1))
                        in Inr (I1 + (I2 - I1) *
                             interpolationCoefficient E (frequency idx) (observationLag c) d))
                     else Inr I1)))"
proof (intro conjI impI allI)
  assume "needsForecast E idx (baseDate c)"
  with assms show "ZeroInflationIndex_forecastFixing E idx d = Inl (InvalidBaseDate (name idx) (baseDate c))"
    by (rule forecastFixing_invalid)
next
  fix n b
  assume h: "\<not> needsForecast E idx (baseDate c)"
  show "ZeroInflationIndex_forecastFixing E idx d \<noteq> Inl (InvalidBaseDate n b)"
  proof (cases "ZeroInflationIndex_fixing E idx (baseDate c)")
    case (Inl e)
    with h have "(\<exists>k. e = MissingFixing (name idx) k) \<or> e = UnboundCurve"
      using fixing_historical_error by blast
    with Inl h assms show ?thesis
      by (auto simp: ZeroInflationIndex_forecastFixing.simps)
  next
    case (Inr v)
    with h assms show ?thesis
      by (simp add: ZeroInflationIndex_forecastFixing.simps Let_def)
  qed
next
  fix e
  assume "\<not> needsForecast E idx (baseDate c)" "ZeroInflationIndex_fixing E idx (baseDate c) = Inl e"
  with assms show "ZeroInflationIndex_forecastFixing E idx d = Inl e"
    by (simp add: ZeroInflationIndex_forecastFixing.simps)
next
  fix baseFixing
  assume "\<not> needsForecast E idx (baseDate c)" "ZeroInflationIndex_fixing E idx (baseDate c) = Inr baseFixing"
  with assms show "ZeroInflationIndex_forecastFixing E idx d =
                 (let p = inflationPeriod E d (frequency idx);
                      I1 = baseFixing * pow E (1 + zeroRate c (fst p) (Period 0 Days) False)
                             (inflationYearFraction E (frequency idx) (interpolated idx)
                                (dayCounter c) (baseDate c) (fst p))
                  in if interpolated idx \<and> d > fst p then
                       (let I2 = baseFixing * pow E (1 + zeroRate c (snd p + 1) (Period 0 Days) False)
                                   (inflationYearFraction E (frequency idx) (interpolated idx)
                                      (dayCounter c) (baseDate c) (snd p + 1))
                        in Inr (I1 + (I2 - I1) *
                             interpolationCoefficient E (frequency idx) (observationLag c) d))
                     else Inr I1)"
    by (simp add: ZeroInflationIndex_forecastFixing.simps Let_def)
qed


theorem forecastFixing_InvalidBaseDate_witness:
  "ZeroInflationIndex_forecastFixing (gregorian (greg_mkDate 15 3 2020))
     (zeroIndex False Monthly (Period 1 Months)
        (fixings [(greg_mkDate 1 12 2019, greg_mkDate 31 12 2019, 100)])
        (Some (flatCurve (2 / 100) (greg_mkDate 20 3 2020) (Period 3 Months))))
     (greg_mkDate 20 6 2020)
     = Inl (InvalidBaseDate ''UK RPI'' (greg_mkDate 20 3 2020)) \<and>
   ZeroInflationIndex_forecastFixing (gregorian (greg_mkDate 15 3 2020))
     (zeroIndex False Monthly (Period 1 Months)
        (fixings [(greg_mkDate 1 12 2019, greg_mkDate 31 12 2019, 100)])
        (Some (flatCurve (2 / 100) (greg_mkDate 1 12 2019) (Period 3 Months))))
     (greg_mkDate 20 6 2020)
     = Inr (100 * (1 + 2 / 100) powr (183 / 365))"
proof -
  let ?E = "gregorian (greg_mkDate 15 3 2020)"
  let ?late = "flatCurve (2 / 100) (greg_mkDate 20 3 2020) (Period 3 Months)"
  let ?c = "flatCurve (2 / 100) (greg_mkDate 1 12 2019) (Period 3 Months)"
  let ?ts = "fixings [(greg_mkDate 1 12 2019, greg_mkDate 31 12 2019, 100)]"
  let ?bad = "zeroIndex False Monthly (Period 1 Months) ?ts (Some ?late)"
  let ?idx = "zeroIndex False Monthly (Period 1 Months) ?ts (Some ?c)"
  have future: "needsForecast ?E ?bad (baseDate ?late)"
    by (simp add: needsForecast_def historicalFixingKnown_def latestNeededDate_def gregorian_def
          zeroIndex_def flatCurve_def minus_Period_def dates_2020 lag_2020_03_15)
  have hist: "\<not> needsForecast ?E ?idx (baseDate ?c)"
    by (simp add: needsForecast_def historicalFixingKnown_def latestNeededDate_def gregorian_def
          zeroIndex_def flatCurve_def minus_Period_def dates_2020 dates_2019 lag_2020_03_15)
  have base: "ZeroInflationIndex_fixing ?E ?idx (baseDate ?c) = Inr 100"
    using hist not_Null_Real
    by (simp add: fixing_historical gregorian_def zeroIndex_def flatCurve_def ts_at_def
          dates_2019 dates_2020_06)
  have a: "ZeroInflationIndex_forecastFixing ?E ?bad 44002
             = Inl (InvalidBaseDate (name ?bad) (baseDate ?late))"
    using forecastFixing_InvalidBaseDate [of ?bad ?late ?E 44002] future
    by (simp add: zeroIndex_def)
  have b: "ZeroInflationIndex_forecastFixing ?E ?idx 44002
             = Inr (100 * (1 + 2 / 100) powr (183 / 365))"
    using forecastFixing_InvalidBaseDate [of ?idx ?c ?E 44002] hist base
    by (simp add: gregorian_def zeroIndex_def flatCurve_def greg_inflationYearFraction_def
          dates_2019 dates_2020_06)
  show ?thesis
    using a b by (simp add: name_def zeroIndex_def flatCurve_def dates_2020 dates_2020_06)
qed

section \<open>The year-on-year engine, branch by branch\<close>

lemma yoy_historical:
  "fixingDate < mustForecastOn E idx \<Longrightarrow>
   \<not> (interpolated idx \<and> fixingDate \<ge> minus_Period E
         (fst (inflationPeriod E (minus_Period E (evaluationDate E) (availabilityLag idx))
                (frequency idx)) - 1 + 1) (Period_of (frequency idx))) \<and>
   \<not> (\<not> interpolated idx \<and> fixingDate \<ge>
         fst (inflationPeriod E (minus_Period E (evaluationDate E) (availabilityLag idx))
                (frequency idx)) - 1 + 1)"
  by (auto simp: mustForecastOn_def Let_def split: if_splits)

lemma yoy_flat:
  "\<not> interpolated idx \<Longrightarrow> \<not> ratio idx \<Longrightarrow> d < mustForecastOn E idx \<Longrightarrow>
   YoYInflationIndex_fixing E idx d =
     (if ts_at (timeSeries idx) (fst (inflationPeriod E d (frequency idx))) = Null_Real
      then Inl (MissingFixing (name idx) (fst (inflationPeriod E d (frequency idx))))
      else Inr (ts_at (timeSeries idx) (fst (inflationPeriod E d (frequency idx)))))"
  using yoy_historical [of d E idx] by (simp add: YoYInflationIndex_fixing_def Let_def)

lemma yoy_ratio_flat:
  "\<not> interpolated idx \<Longrightarrow> ratio idx \<Longrightarrow> d < mustForecastOn E idx \<Longrightarrow>
   YoYInflationIndex_fixing E idx d =
     (let pastFixing = ts_at (timeSeries idx) (fst (inflationPeriod E d (frequency idx)));
          limBef = inflationPeriod E (minus_Period E d (Period 1 Years)) (frequency idx);
          previousFixing = ts_at (timeSeries idx) (fst limBef)
      in if pastFixing = Null_Real then Inl (MissingFixing (name idx) d)
         else if previousFixing = Null_Real then Inl (MissingFixing (name idx) (fst limBef))
         else Inr (pastFixing / previousFixing - 1))"
  using yoy_historical [of d E idx] by (simp add: YoYInflationIndex_fixing_def Let_def)

lemma yoy_interpolated:
  "interpolated idx \<Longrightarrow> \<not> ratio idx \<Longrightarrow> d < mustForecastOn E idx \<Longrightarrow>
   YoYInflationIndex_fixing E idx d =
     (let lim = inflationPeriod E d (frequency idx);
          limFirstFix = ts_at (timeSeries idx) (fst lim);
          limSecondFix = ts_at (timeSeries idx) (snd lim + 1)
      in if limFirstFix = Null_Real then Inl (MissingFixing (name idx) (fst lim))
         else if limSecondFix = Null_Real then Inl (MissingFixing (name idx) (snd lim + 1))
         else Inr (limFirstFix + (limSecondFix - limFirstFix) * real_of_int (d - fst lim)
                     / real_of_int (snd lim + 1 - fst lim)))"
  using yoy_historical [of d E idx] by (simp add: YoYInflationIndex_fixing_def Let_def)

lemma yoy_ratio_interpolated:
  "interpolated idx \<Longrightarrow> ratio idx \<Longrightarrow> d < mustForecastOn E idx \<Longrightarrow>
   YoYInflationIndex_fixing E idx d =
     (let lim = inflationPeriod E d (frequency idx);
          fixMinus1Y = advance E d (Period (- 1) Years);
          limBef = inflationPeriod E fixMinus1Y (frequency idx);
          limFirstFix = ts_at (timeSeries idx) (fst lim);
          limSecondFix = ts_at (timeSeries idx) (snd lim + 1);
          limBefFirstFix = ts_at (timeSeries idx) (fst limBef);
          limBefSecondFix = ts_at (timeSeries idx) (snd limBef + 1)
      in if limFirstFix = Null_Real then Inl (MissingFixing (name idx) (fst lim))
         else if limSecondFix = Null_Real then Inl (MissingFixing (name idx) (snd lim + 1))
         else if limBefFirstFix = Null_Real then Inl (MissingFixing (name idx) (fst limBef))
         else if limBefSecondFix = Null_Real then Inl (MissingFixing (name idx) (snd limBef + 1))
         else Inr ((limFirstFix + (limSecondFix - limFirstFix) * real_of_int (d - fst lim)
                      / real_of_int (snd lim + 1 - fst lim))
                   / (limBefFirstFix + (limBefSecondFix - limBefFirstFix)
                        * real_of_int (fixMinus1Y - fst limBef)
                        / real_of_int (snd limBef + 1 - fst limBef)) - 1))"
  using yoy_historical [of d E idx] by (simp add: YoYInflationIndex_fixing_def Let_def)

lemma dates_2019_01:
  "greg_mkDate 1 1 2019 = 43466" "greg_mkDate 31 1 2019 = 43496"
  "greg_plus 43850 (Period (- 1) Years) = 43485"
  "greg_inflationPeriod 43485 Monthly = (43466, 43496)"
  "greg_plus 43862 (Period (- 1) Months) = 43831"
  "greg_inflationPeriod 43800 Monthly = (43800, 43830)"
  by code_simp+

lemma dates_2020_01:
  "greg_mkDate 16 1 2020 = 43846" "greg_inflationPeriod 43846 Monthly = (43831, 43861)"
  by code_simp+

lemma yoy_frontier_2020_03_15:
  "mustForecastOn (gregorian (greg_mkDate 15 3 2020)) (yoyIndex False r Monthly (Period 1 Months) ts c)
     = 43862"
  "mustForecastOn (gregorian (greg_mkDate 15 3 2020)) (yoyIndex True r Monthly (Period 1 Months) ts c)
     = 43831"
  by (simp_all add: mustForecastOn_def minus_Period_def gregorian_def yoyIndex_def dates_2020
        lag_2020_03_15 dates_2019_01)

section \<open>Fixings of an index that is not interpolated\<close>

text \<open>
  C8, as the code has it. For a zero inflation index, and for a year-on-year index with
  \<open>ratio = false\<close>, that is not interpolated, and a date \<open>d\<close> classified as historical:
  \<open>fixing(d)\<close> is the value stored at the start of the publication period that contains
  \<open>d\<close> (MissingFixing when there is none), so it is the same for all dates of a period.
  A year-on-year index with \<open>ratio = true\<close> returns instead the ratio of that value to the
  one stored a year before, minus one.
\<close>

theorem flat_fixing:
  "(\<not> interpolated idx \<and> \<not> needsForecast E idx d \<longrightarrow>
      ZeroInflationIndex_fixing E idx d =
        (if ts_at (timeSeries idx) (fst (inflationPeriod E d (frequency idx))) = Null_Real
         then Inl (MissingFixing (name idx) (fst (inflationPeriod E d (frequency idx))))
         else Inr (ts_at (timeSeries idx) (fst (inflationPeriod E d (frequency idx)))))) \<and>
   (\<not> interpolated idx \<and> \<not> needsForecast E idx d \<and> \<not> needsForecast E idx d'
      \<and> inflationPeriod E d' (frequency idx) = inflationPeriod E d (frequency idx) \<longrightarrow>
      ZeroInflationIndex_fixing E idx d' = ZeroInflationIndex_fixing E idx d) \<and>
   (\<not> interpolated y \<and> \<not> ratio y \<and> d < mustForecastOn E y \<longrightarrow>
      YoYInflationIndex_fixing E y d =
        (if ts_at (timeSeries y) (fst (inflationPeriod E d (frequency y))) = Null_Real
         then Inl (MissingFixing (name y) (fst (inflationPeriod E d (frequency y))))
         else Inr (ts_at (timeSeries y) (fst (inflationPeriod E d (frequency y)))))) \<and>
   (\<not> interpolated y \<and> \<not> ratio y \<and> d < mustForecastOn E y \<and> d' < mustForecastOn E y
      \<and> inflationPeriod E d' (frequency y) = inflationPeriod E d (frequency y) \<longrightarrow>
      YoYInflationIndex_fixing E y d' = YoYInflationIndex_fixing E y d)"
  by (simp add: fixing_historical yoy_flat Let_def)

theorem flat_fixing_witness:
  "ZeroInflationIndex_fixing (gregorian (greg_mkDate 15 3 2020))
     (zeroIndex False Monthly (Period 1 Months)
        (fixings [(greg_mkDate 1 1 2020, greg_mkDate 31 1 2020, 102)]) None)
     (greg_mkDate 20 1 2020) = Inr 102 \<and>
   ZeroInflationIndex_fixing (gregorian (greg_mkDate 15 3 2020))
     (zeroIndex False Monthly (Period 1 Months)
        (fixings [(greg_mkDate 1 1 2020, greg_mkDate 31 1 2020, 102)]) None)
     (greg_mkDate 16 1 2020) = Inr 102 \<and>
   YoYInflationIndex_fixing (gregorian (greg_mkDate 15 3 2020))
     (yoyIndex False False Monthly (Period 1 Months)
        (fixings [(greg_mkDate 1 1 2020, greg_mkDate 31 1 2020, 102)]) None)
     (greg_mkDate 20 1 2020) = Inr 102 \<and>
   YoYInflationIndex_fixing (gregorian (greg_mkDate 15 3 2020))
     (yoyIndex False False Monthly (Period 1 Months)
        (fixings [(greg_mkDate 1 1 2020, greg_mkDate 31 1 2020, 102)]) None)
     (greg_mkDate 16 1 2020) = Inr 102"
proof -
  let ?E = "gregorian (greg_mkDate 15 3 2020)"
  let ?ts = "fixings [(greg_mkDate 1 1 2020, greg_mkDate 31 1 2020, 102)]"
  let ?z = "zeroIndex False Monthly (Period 1 Months) ?ts None"
  let ?y = "yoyIndex False False Monthly (Period 1 Months) ?ts None"
  have hist: "\<not> needsForecast ?E ?z 43850" "\<not> needsForecast ?E ?z 43846"
    by (simp_all add: needsForecast_def historicalFixingKnown_def latestNeededDate_def gregorian_def
          zeroIndex_def minus_Period_def dates_2020 lag_2020_03_15)
  have frontier: "mustForecastOn ?E ?y = 43862"
    by (rule yoy_frontier_2020_03_15)
  have per: "inflationPeriod ?E 43850 Monthly = (43831, 43861)"
            "inflationPeriod ?E 43846 Monthly = (43831, 43861)"
    by (simp_all add: gregorian_def periods_2020 dates_2020_01)
  have stored: "ts_at ?ts 43831 = 102"
    by (simp add: ts_at_def dates_2020)
  have f: "frequency ?z = Monthly" "\<not> interpolated ?z" "frequency ?y = Monthly"
    "\<not> interpolated ?y" "\<not> ratio ?y" "timeSeries ?z = ?ts" "timeSeries ?y = ?ts"
    by (simp_all add: zeroIndex_def yoyIndex_def)
  have a: "ZeroInflationIndex_fixing ?E ?z 43850 = Inr 102"
    using flat_fixing [of ?z ?E 43850 43846 ?y] hist per stored f not_Null_Real by simp
  have b: "ZeroInflationIndex_fixing ?E ?z 43846 = Inr 102"
    using flat_fixing [of ?z ?E 43850 43846 ?y] hist per stored f a by simp
  have c: "YoYInflationIndex_fixing ?E ?y 43850 = Inr 102"
    using flat_fixing [of ?z ?E 43850 43846 ?y] frontier per stored f not_Null_Real by simp
  have d: "YoYInflationIndex_fixing ?E ?y 43846 = Inr 102"
    using flat_fixing [of ?z ?E 43850 43846 ?y] frontier per stored f c by simp
  show ?thesis
    using a b c d by (simp add: dates_2020 dates_2020_01)
qed

text \<open>
  C8 as stated fails for a year-on-year index with \<open>ratio = true\<close>: with 100 stored for
  January 2019 and 110 for January 2020, the historical fixing on 20 January 2020 is
  \<open>110 / 100 - 1\<close>, not the 110 stored at the start of its period.
\<close>

theorem flat_fixing_ratio_counterexample:
  "\<not> interpolated (yoyIndex False True Monthly (Period 1 Months)
        (fixings [(greg_mkDate 1 1 2019, greg_mkDate 31 1 2019, 100),
                  (greg_mkDate 1 1 2020, greg_mkDate 31 1 2020, 110)]) None) \<and>
   greg_mkDate 20 1 2020 < mustForecastOn (gregorian (greg_mkDate 15 3 2020))
     (yoyIndex False True Monthly (Period 1 Months)
        (fixings [(greg_mkDate 1 1 2019, greg_mkDate 31 1 2019, 100),
                  (greg_mkDate 1 1 2020, greg_mkDate 31 1 2020, 110)]) None) \<and>
   ts_at (fixings [(greg_mkDate 1 1 2019, greg_mkDate 31 1 2019, 100),
                   (greg_mkDate 1 1 2020, greg_mkDate 31 1 2020, 110)])
     (fst (greg_inflationPeriod (greg_mkDate 20 1 2020) Monthly)) = 110 \<and>
   YoYInflationIndex_fixing (gregorian (greg_mkDate 15 3 2020))
     (yoyIndex False True Monthly (Period 1 Months)
        (fixings [(greg_mkDate 1 1 2019, greg_mkDate 31 1 2019, 100),
                  (greg_mkDate 1 1 2020, greg_mkDate 31 1 2020, 110)]) None)
     (greg_mkDate 20 1 2020) = Inr (1 / 10)"
proof -
  let ?E = "gregorian (greg_mkDate 15 3 2020)"
  let ?ts = "fixings [(greg_mkDate 1 1 2019, greg_mkDate 31 1 2019, 100),
                      (greg_mkDate 1 1 2020, greg_mkDate 31 1 2020, 110)]"
  let ?y = "yoyIndex False True Monthly (Period 1 Months) ?ts None"
  have frontier: "mustForecastOn ?E ?y = 43862"
    by (rule yoy_frontier_2020_03_15)
  have stored: "ts_at ?ts 43831 = 110" "ts_at ?ts 43466 = 100"
    by (simp_all add: ts_at_def dates_2020 dates_2019_01)
  have f: "frequency ?y = Monthly" "\<not> interpolated ?y" "ratio ?y" "timeSeries ?y = ?ts"
    by (simp_all add: yoyIndex_def)
  have per: "inflationPeriod ?E 43850 Monthly = (43831, 43861)"
            "inflationPeriod ?E (minus_Period ?E 43850 (Period 1 Years)) Monthly = (43466, 43496)"
    by (simp_all add: gregorian_def minus_Period_def periods_2020 dates_2019_01)
  have "YoYInflationIndex_fixing ?E ?y 43850 = Inr (110 / 100 - 1)"
    using yoy_ratio_flat [of ?y 43850 ?E] frontier f per stored not_Null_Real by simp
  then show ?thesis
    using frontier stored f by (simp add: dates_2020 periods_2020)
qed

section \<open>Missing fixings\<close>

text \<open>
  C10. An interpolated year-on-year index on its historical branch, asked for the fixing
  at the exact start of a period, still needs the fixing at the start of the next period:
  with the first one stored and the second one missing it fails with MissingFixing for
  \<open>lim.end + 1\<close>, and with the fixings stored the result is the interpolation at weight
  \<open>dl = 0\<close>, that is the fixing at the start (divided by the interpolated fixing of a year
  before, minus one, when \<open>ratio\<close> holds). The zero engine at the start of a period
  returns the stored fixing without the second lookup.
\<close>

theorem yoy_period_start_needs_next_fixing:
  "(interpolated y \<and> d < mustForecastOn E y \<and> d = fst (inflationPeriod E d (frequency y))
      \<and> ts_at (timeSeries y) (fst (inflationPeriod E d (frequency y))) \<noteq> Null_Real
      \<and> ts_at (timeSeries y) (snd (inflationPeriod E d (frequency y)) + 1) = Null_Real \<longrightarrow>
      YoYInflationIndex_fixing E y d
        = Inl (MissingFixing (name y) (snd (inflationPeriod E d (frequency y)) + 1))) \<and>
   (interpolated y \<and> \<not> ratio y \<and> d < mustForecastOn E y
      \<and> d = fst (inflationPeriod E d (frequency y))
      \<and> ts_at (timeSeries y) (fst (inflationPeriod E d (frequency y))) \<noteq> Null_Real
      \<and> ts_at (timeSeries y) (snd (inflationPeriod E d (frequency y)) + 1) \<noteq> Null_Real \<longrightarrow>
      YoYInflationIndex_fixing E y d
        = Inr (ts_at (timeSeries y) (fst (inflationPeriod E d (frequency y))))) \<and>
   (interpolated y \<and> ratio y \<and> d < mustForecastOn E y
      \<and> d = fst (inflationPeriod E d (frequency y))
      \<and> limBef = inflationPeriod E (advance E d (Period (- 1) Years)) (frequency y)
      \<and> ts_at (timeSeries y) (fst (inflationPeriod E d (frequency y))) \<noteq> Null_Real
      \<and> ts_at (timeSeries y) (snd (inflationPeriod E d (frequency y)) + 1) \<noteq> Null_Real
      \<and> ts_at (timeSeries y) (fst limBef) \<noteq> Null_Real
      \<and> ts_at (timeSeries y) (snd limBef + 1) \<noteq> Null_Real \<longrightarrow>
      YoYInflationIndex_fixing E y d
        = Inr (ts_at (timeSeries y) (fst (inflationPeriod E d (frequency y)))
               / (ts_at (timeSeries y) (fst limBef)
                  + (ts_at (timeSeries y) (snd limBef + 1) - ts_at (timeSeries y) (fst limBef))
                    * real_of_int (advance E d (Period (- 1) Years) - fst limBef)
                    / real_of_int (snd limBef + 1 - fst limBef)) - 1)) \<and>
   (\<not> needsForecast E z d \<and> d = fst (inflationPeriod E d (frequency z))
      \<and> ts_at (timeSeries z) (fst (inflationPeriod E d (frequency z))) \<noteq> Null_Real \<longrightarrow>
      ZeroInflationIndex_fixing E z d
        = Inr (ts_at (timeSeries z) (fst (inflationPeriod E d (frequency z)))))"
proof (intro conjI impI)
  assume h: "interpolated y \<and> d < mustForecastOn E y \<and> d = fst (inflationPeriod E d (frequency y))
      \<and> ts_at (timeSeries y) (fst (inflationPeriod E d (frequency y))) \<noteq> Null_Real
      \<and> ts_at (timeSeries y) (snd (inflationPeriod E d (frequency y)) + 1) = Null_Real"
  show "YoYInflationIndex_fixing E y d
        = Inl (MissingFixing (name y) (snd (inflationPeriod E d (frequency y)) + 1))"
  proof (cases "ratio y")
    case True
    with h show ?thesis by (elim conjE) (simp add: yoy_ratio_interpolated Let_def)
  next
    case False
    with h show ?thesis by (elim conjE) (simp add: yoy_interpolated Let_def)
  qed
next
  assume h: "interpolated y \<and> \<not> ratio y \<and> d < mustForecastOn E y
      \<and> d = fst (inflationPeriod E d (frequency y))
      \<and> ts_at (timeSeries y) (fst (inflationPeriod E d (frequency y))) \<noteq> Null_Real
      \<and> ts_at (timeSeries y) (snd (inflationPeriod E d (frequency y)) + 1) \<noteq> Null_Real"
  then have "real_of_int (d - fst (inflationPeriod E d (frequency y))) = 0"
    by simp
  with h show "YoYInflationIndex_fixing E y d
        = Inr (ts_at (timeSeries y) (fst (inflationPeriod E d (frequency y))))"
    by (elim conjE) (simp add: yoy_interpolated Let_def)
next
  assume h: "interpolated y \<and> ratio y \<and> d < mustForecastOn E y
      \<and> d = fst (inflationPeriod E d (frequency y))
      \<and> limBef = inflationPeriod E (advance E d (Period (- 1) Years)) (frequency y)
      \<and> ts_at (timeSeries y) (fst (inflationPeriod E d (frequency y))) \<noteq> Null_Real
      \<and> ts_at (timeSeries y) (snd (inflationPeriod E d (frequency y)) + 1) \<noteq> Null_Real
      \<and> ts_at (timeSeries y) (fst limBef) \<noteq> Null_Real
      \<and> ts_at (timeSeries y) (snd limBef + 1) \<noteq> Null_Real"
  then have "real_of_int (d - fst (inflationPeriod E d (frequency y))) = 0"
    by simp
  with h show "YoYInflationIndex_fixing E y d
        = Inr (ts_at (timeSeries y) (fst (inflationPeriod E d (frequency y)))
               / (ts_at (timeSeries y) (fst limBef)
                  + (ts_at (timeSeries y) (snd limBef + 1) - ts_at (timeSeries y) (fst limBef))
                    * real_of_int (advance E d (Period (- 1) Years) - fst limBef)
                    / real_of_int (snd limBef + 1 - fst limBef)) - 1)"
    by (elim conjE) (simp add: yoy_ratio_interpolated Let_def)
next
  assume h: "\<not> needsForecast E z d \<and> d = fst (inflationPeriod E d (frequency z))
      \<and> ts_at (timeSeries z) (fst (inflationPeriod E d (frequency z))) \<noteq> Null_Real"
  then have "\<not> d > fst (inflationPeriod E d (frequency z))"
    by simp
  with h show "ZeroInflationIndex_fixing E z d
        = Inr (ts_at (timeSeries z) (fst (inflationPeriod E d (frequency z))))"
    by (elim conjE) (simp add: fixing_historical Let_def)
qed

lemma dates_2018_12:
  "greg_mkDate 1 12 2018 = 43435" "greg_mkDate 31 12 2018 = 43465"
  "greg_plus 43800 (Period (- 1) Years) = 43435"
  "greg_inflationPeriod 43435 Monthly = (43435, 43465)"
  by code_simp+

lemma not_Null_Real_more: "(90::real) \<noteq> Null_Real" "(91::real) \<noteq> Null_Real"
  by (simp_all add: Null_Real_def)

theorem yoy_period_start_needs_next_fixing_witness:
  "YoYInflationIndex_fixing (gregorian (greg_mkDate 15 3 2020))
     (yoyIndex True False Monthly (Period 1 Months)
        (fixings [(greg_mkDate 1 12 2019, greg_mkDate 31 12 2019, 100)]) None)
     (greg_mkDate 1 12 2019) = Inl (MissingFixing ''UK YY_RPI'' (greg_mkDate 1 1 2020)) \<and>
   YoYInflationIndex_fixing (gregorian (greg_mkDate 15 3 2020))
     (yoyIndex True False Monthly (Period 1 Months)
        (fixings [(greg_mkDate 1 12 2019, greg_mkDate 31 12 2019, 100),
                  (greg_mkDate 1 1 2020, greg_mkDate 31 1 2020, 102)]) None)
     (greg_mkDate 1 12 2019) = Inr 100 \<and>
   YoYInflationIndex_fixing (gregorian (greg_mkDate 15 3 2020))
     (yoyIndex True True Monthly (Period 1 Months)
        (fixings [(greg_mkDate 1 12 2018, greg_mkDate 31 12 2018, 90),
                  (greg_mkDate 1 1 2019, greg_mkDate 31 1 2019, 91),
                  (greg_mkDate 1 12 2019, greg_mkDate 31 12 2019, 100),
                  (greg_mkDate 1 1 2020, greg_mkDate 31 1 2020, 102)]) None)
     (greg_mkDate 1 12 2019) = Inr (100 / 90 - 1) \<and>
   ZeroInflationIndex_fixing (gregorian (greg_mkDate 15 3 2020))
     (zeroIndex True Monthly (Period 1 Months)
        (fixings [(greg_mkDate 1 12 2019, greg_mkDate 31 12 2019, 100)]) None)
     (greg_mkDate 1 12 2019) = Inr 100"
proof -
  let ?E = "gregorian (greg_mkDate 15 3 2020)"
  let ?dec = "fixings [(greg_mkDate 1 12 2019, greg_mkDate 31 12 2019, 100)]"
  let ?both = "fixings [(greg_mkDate 1 12 2019, greg_mkDate 31 12 2019, 100),
                        (greg_mkDate 1 1 2020, greg_mkDate 31 1 2020, 102)]"
  let ?four = "fixings [(greg_mkDate 1 12 2018, greg_mkDate 31 12 2018, 90),
                        (greg_mkDate 1 1 2019, greg_mkDate 31 1 2019, 91),
                        (greg_mkDate 1 12 2019, greg_mkDate 31 12 2019, 100),
                        (greg_mkDate 1 1 2020, greg_mkDate 31 1 2020, 102)]"
  let ?y1 = "yoyIndex True False Monthly (Period 1 Months) ?dec None"
  let ?y2 = "yoyIndex True False Monthly (Period 1 Months) ?both None"
  let ?y3 = "yoyIndex True True Monthly (Period 1 Months) ?four None"
  let ?z = "zeroIndex True Monthly (Period 1 Months) ?dec None"
  have frontier: "mustForecastOn ?E ?y1 = 43831" "mustForecastOn ?E ?y2 = 43831"
    "mustForecastOn ?E ?y3 = 43831"
    by (rule yoy_frontier_2020_03_15)+
  have hist: "\<not> needsForecast ?E ?z 43800"
    by (simp add: needsForecast_def historicalFixingKnown_def latestNeededDate_def gregorian_def
          zeroIndex_def minus_Period_def dates_2020 lag_2020_03_15 dates_2019_01)
  have per: "inflationPeriod ?E 43800 Monthly = (43800, 43830)"
            "inflationPeriod ?E (advance ?E 43800 (Period (- 1) Years)) Monthly = (43435, 43465)"
            "advance ?E 43800 (Period (- 1) Years) = 43435"
    by (simp_all add: gregorian_def dates_2019_01 dates_2018_12)
  have stored: "ts_at ?dec 43800 = 100" "ts_at ?dec 43831 = Null_Real"
    "ts_at ?both 43800 = 100" "ts_at ?both 43831 = 102"
    "ts_at ?four 43800 = 100" "ts_at ?four 43831 = 102"
    "ts_at ?four 43435 = 90" "ts_at ?four 43466 = 91"
    by (simp_all add: ts_at_def dates_2020 dates_2019 dates_2019_01 dates_2018_12)
  have f: "frequency ?y1 = Monthly" "interpolated ?y1" "timeSeries ?y1 = ?dec" "name ?y1 = ''UK YY_RPI''"
    "frequency ?y2 = Monthly" "interpolated ?y2" "\<not> ratio ?y2" "timeSeries ?y2 = ?both"
    "frequency ?y3 = Monthly" "interpolated ?y3" "ratio ?y3" "timeSeries ?y3 = ?four"
    "frequency ?z = Monthly" "timeSeries ?z = ?dec"
    by (simp_all add: zeroIndex_def yoyIndex_def name_def)
  have a: "YoYInflationIndex_fixing ?E ?y1 43800 = Inl (MissingFixing ''UK YY_RPI'' 43831)"
    using yoy_period_start_needs_next_fixing [of ?y1 43800 ?E] frontier per stored f not_Null_Real
    by simp
  have b: "YoYInflationIndex_fixing ?E ?y2 43800 = Inr 100"
    using yoy_period_start_needs_next_fixing [of ?y2 43800 ?E] frontier per stored f not_Null_Real
    by simp
  have c: "YoYInflationIndex_fixing ?E ?y3 43800 = Inr (100 / 90 - 1)"
    using yoy_period_start_needs_next_fixing [of ?y3 43800 ?E "(43435, 43465)"] frontier per stored f
      not_Null_Real not_Null_Real_more
    by simp
  have d: "ZeroInflationIndex_fixing ?E ?z 43800 = Inr 100"
    using yoy_period_start_needs_next_fixing [of ?y1 43800 ?E _ ?z] hist per stored f not_Null_Real
    by simp
  show ?thesis
    using a b c d by (simp add: dates_2020 dates_2019)
qed

text \<open>
  C4. The historical branches report the key they have looked up, with one exception:
  the branch of the year-on-year engine for \<open>ratio = true\<close> and no interpolation looks up
  the start of the period but reports the fixing date itself. With the fixing of
  January 2020 missing, the fixing of 20 January 2020 reads the key 1 January 2020 and
  fails with MissingFixing for 20 January 2020.
\<close>

theorem yoy_ratio_flat_reports_fixing_date:
  "YoYInflationIndex_fixing (gregorian (greg_mkDate 15 3 2020))
     (yoyIndex False True Monthly (Period 1 Months)
        (fixings [(greg_mkDate 1 1 2019, greg_mkDate 31 1 2019, 100)]) None)
     (greg_mkDate 20 1 2020) = Inl (MissingFixing ''UK YY_RPI'' (greg_mkDate 20 1 2020)) \<and>
   YoYInflationIndex_fixing_lookups (gregorian (greg_mkDate 15 3 2020))
     (yoyIndex False True Monthly (Period 1 Months)
        (fixings [(greg_mkDate 1 1 2019, greg_mkDate 31 1 2019, 100)]) None)
     (greg_mkDate 20 1 2020) = [greg_mkDate 1 1 2020]"
proof -
  let ?E = "gregorian (greg_mkDate 15 3 2020)"
  let ?ts = "fixings [(greg_mkDate 1 1 2019, greg_mkDate 31 1 2019, 100)]"
  let ?y = "yoyIndex False True Monthly (Period 1 Months) ?ts None"
  have frontier: "mustForecastOn ?E ?y = 43862"
    by (rule yoy_frontier_2020_03_15)
  have per: "inflationPeriod ?E 43850 Monthly = (43831, 43861)"
    by (simp add: gregorian_def periods_2020)
  have stored: "ts_at ?ts 43831 = Null_Real"
    by (simp add: ts_at_def dates_2019_01)
  have f: "frequency ?y = Monthly" "\<not> interpolated ?y" "ratio ?y" "timeSeries ?y = ?ts"
    "name ?y = ''UK YY_RPI''"
    by (simp_all add: yoyIndex_def name_def)
  have a: "YoYInflationIndex_fixing ?E ?y 43850 = Inl (MissingFixing ''UK YY_RPI'' 43850)"
    using yoy_ratio_flat [of ?y 43850 ?E] frontier f per stored by (simp add: Let_def)
  have b: "YoYInflationIndex_fixing_lookups ?E ?y 43850 = [43831]"
    using frontier f per stored by (simp add: YoYInflationIndex_fixing_lookups_def Let_def)
  show ?thesis
    using a b by (simp add: dates_2020)
qed

section \<open>Lagged CPI fixings\<close>

lemma dates_2019_10:
  "greg_mkDate 1 10 2019 = 43739" "greg_mkDate 31 10 2019 = 43769"
  "greg_plus 43831 (Period (- 3) Months) = 43739"
  "greg_inflationPeriod 43739 Monthly = (43739, 43769)"
  "greg_inflationPeriod 43831 Monthly = (43831, 43861)"
  by code_simp+

text \<open>
  C9. When \<open>d\<close> is the start of the interpolation period that contains it,
  \<open>laggedFixing(index, d, lag, Flat) = laggedFixing(index, d, lag, Linear)\<close>, and both
  are the fixing at the start of the period that contains \<open>d - lag\<close>. A tag that is none
  of \<open>AsIndex\<close>, \<open>Flat\<close> and \<open>Linear\<close> makes \<open>laggedFixing\<close> fail with
  UnsupportedInterpolation.
\<close>

theorem laggedFixing_period_start:
  "(date = fst (inflationPeriod E date (frequency index)) \<longrightarrow>
      CPI_laggedFixing E index date lag Flat = CPI_laggedFixing E index date lag Linear \<and>
      CPI_laggedFixing E index date lag Flat =
        ZeroInflationIndex_fixing E index
          (fst (inflationPeriod E (minus_Period E date lag) (frequency index)))) \<and>
   (t \<noteq> AsIndex \<and> t \<noteq> Flat \<and> t \<noteq> Linear \<longrightarrow>
      CPI_laggedFixing E index date lag t = Inl (UnsupportedInterpolation t))"
  by (simp add: CPI_laggedFixing_def Let_def AsIndex_def Flat_def Linear_def)

theorem laggedFixing_period_start_witness:
  "CPI_laggedFixing (gregorian (greg_mkDate 15 3 2020))
     (zeroIndex False Monthly (Period 1 Months)
        (fixings [(greg_mkDate 1 10 2019, greg_mkDate 31 10 2019, 100)]) None)
     (greg_mkDate 1 1 2020) (Period 3 Months) Linear = Inr 100 \<and>
   CPI_laggedFixing (gregorian (greg_mkDate 15 3 2020))
     (zeroIndex False Monthly (Period 1 Months)
        (fixings [(greg_mkDate 1 10 2019, greg_mkDate 31 10 2019, 100)]) None)
     (greg_mkDate 1 1 2020) (Period 3 Months) Flat = Inr 100 \<and>
   CPI_laggedFixing (gregorian (greg_mkDate 15 3 2020))
     (zeroIndex False Monthly (Period 1 Months)
        (fixings [(greg_mkDate 1 10 2019, greg_mkDate 31 10 2019, 100)]) None)
     (greg_mkDate 1 1 2020) (Period 3 Months) 7 = Inl (UnsupportedInterpolation 7)"
proof -
  let ?E = "gregorian (greg_mkDate 15 3 2020)"
  let ?ts = "fixings [(greg_mkDate 1 10 2019, greg_mkDate 31 10 2019, 100)]"
  let ?z = "zeroIndex False Monthly (Period 1 Months) ?ts None"
  have hist: "\<not> needsForecast ?E ?z 43739"
    by (simp add: needsForecast_def historicalFixingKnown_def latestNeededDate_def gregorian_def
          zeroIndex_def minus_Period_def dates_2020 lag_2020_03_15)
  have stored: "ZeroInflationIndex_fixing ?E ?z 43739 = Inr 100"
    using hist not_Null_Real
    by (simp add: fixing_historical gregorian_def zeroIndex_def ts_at_def dates_2019_10)
  have per: "inflationPeriod ?E 43831 (frequency ?z) = (43831, 43861)"
    "fst (inflationPeriod ?E (minus_Period ?E 43831 (Period 3 Months)) (frequency ?z)) = 43739"
    by (simp_all add: gregorian_def zeroIndex_def minus_Period_def dates_2019_10)
  have start: "43831 = fst (inflationPeriod ?E 43831 (frequency ?z))"
    using per by simp
  have eqs: "CPI_laggedFixing ?E ?z 43831 (Period 3 Months) Flat
               = CPI_laggedFixing ?E ?z 43831 (Period 3 Months) Linear"
            "CPI_laggedFixing ?E ?z 43831 (Period 3 Months) Flat
               = ZeroInflationIndex_fixing ?E ?z
                   (fst (inflationPeriod ?E (minus_Period ?E 43831 (Period 3 Months)) (frequency ?z)))"
    using laggedFixing_period_start [of 43831 ?E ?z "Period 3 Months" 7] start by blast+
  have a: "CPI_laggedFixing ?E ?z 43831 (Period 3 Months) Flat = Inr 100"
          "CPI_laggedFixing ?E ?z 43831 (Period 3 Months) Linear = Inr 100"
    using eqs per(2) stored by metis+
  have b: "CPI_laggedFixing ?E ?z 43831 (Period 3 Months) 7 = Inl (UnsupportedInterpolation 7)"
    using laggedFixing_period_start [of 43831 ?E ?z "Period 3 Months" 7]
    by (simp add: AsIndex_def Flat_def Linear_def)
  show ?thesis
    using a b by (simp add: dates_2020)
qed

section \<open>The historical fixing store\<close>

lemma Index_addFixings_writes:
  "forceOverwrite \<or> (\<forall>d\<in>set ds. ts_at h d = Null_Real \<or> ts_at h d = v) \<Longrightarrow>
   \<exists>h'. Index_addFixings tag h ds (replicate (length ds) v) forceOverwrite = Inr h' \<and>
        (\<forall>k. ts_at h' k = (if k \<in> set ds then v else ts_at h k))"
proof (induction ds arbitrary: h)
  case Nil
  then show ?case by simp
next
  case (Cons d ds)
  show ?case
  proof (cases "forceOverwrite \<or> ts_at h d = Null_Real")
    case True
    have "forceOverwrite \<or> (\<forall>x\<in>set ds. ts_at (h(d \<mapsto> v)) x = Null_Real \<or> ts_at (h(d \<mapsto> v)) x = v)"
      using Cons.prems by (auto simp: ts_at_def)
    from Cons.IH [OF this] obtain h' where
      h': "Index_addFixings tag (h(d \<mapsto> v)) ds (replicate (length ds) v) forceOverwrite = Inr h'"
          "\<forall>k. ts_at h' k = (if k \<in> set ds then v else ts_at (h(d \<mapsto> v)) k)"
      by blast
    have "\<forall>k. ts_at h' k = (if k \<in> set (d # ds) then v else ts_at h k)"
      using h'(2) by (auto simp: ts_at_def)
    with h'(1) True show ?thesis by (simp add: Let_def)
  next
    case False
    then have same: "ts_at h d = v"
      using Cons.prems by auto
    have "forceOverwrite \<or> (\<forall>x\<in>set ds. ts_at h x = Null_Real \<or> ts_at h x = v)"
      using Cons.prems by auto
    from Cons.IH [OF this] obtain h' where
      h': "Index_addFixings tag h ds (replicate (length ds) v) forceOverwrite = Inr h'"
          "\<forall>k. ts_at h' k = (if k \<in> set ds then v else ts_at h k)"
      by blast
    have "\<forall>k. ts_at h' k = (if k \<in> set (d # ds) then v else ts_at h k)"
      using h'(2) same by auto
    with h'(1) False same show ?thesis by (simp add: Let_def)
  qed
qed

lemma Index_addFixings_duplicate:
  "\<not> forceOverwrite \<Longrightarrow> \<exists>d\<in>set ds. ts_at h d \<noteq> Null_Real \<and> ts_at h d \<noteq> v \<Longrightarrow>
   \<exists>d\<in>set ds. Index_addFixings tag h ds (replicate (length ds) v) forceOverwrite
                 = Inl (DuplicateFixing tag d)"
proof (induction ds arbitrary: h)
  case Nil
  then show ?case by simp
next
  case (Cons d ds)
  show ?case
  proof (cases "ts_at h d = Null_Real")
    case True
    then have "\<exists>x\<in>set ds. ts_at (h(d \<mapsto> v)) x \<noteq> Null_Real \<and> ts_at (h(d \<mapsto> v)) x \<noteq> v"
      using Cons.prems(2) by (auto simp: ts_at_def)
    from Cons.IH [OF Cons.prems(1) this] obtain k where
      k: "k \<in> set ds"
         "Index_addFixings tag (h(d \<mapsto> v)) ds (replicate (length ds) v) forceOverwrite
            = Inl (DuplicateFixing tag k)"
      by blast
    have "Index_addFixings tag h (d # ds) (replicate (length (d # ds)) v) forceOverwrite
            = Inl (DuplicateFixing tag k)"
      using k(2) True by (simp add: Let_def)
    with k(1) show ?thesis by auto
  next
    case False
    show ?thesis
    proof (cases "ts_at h d = v")
      case True
      then have "\<exists>x\<in>set ds. ts_at h x \<noteq> Null_Real \<and> ts_at h x \<noteq> v"
        using Cons.prems(2) by auto
      from Cons.IH [OF Cons.prems(1) this] obtain k where
        k: "k \<in> set ds"
           "Index_addFixings tag h ds (replicate (length ds) v) forceOverwrite
              = Inl (DuplicateFixing tag k)"
        by blast
      have "Index_addFixings tag h (d # ds) (replicate (length (d # ds)) v) forceOverwrite
              = Inl (DuplicateFixing tag k)"
        using k(2) True False Cons.prems(1) by (simp add: Let_def)
      with k(1) show ?thesis by auto
    next
      case differs: False
      have "Index_addFixings tag h (d # ds) (replicate (length (d # ds)) v) forceOverwrite
              = Inl (DuplicateFixing tag d)"
        using differs False Cons.prems(1) by (simp add: Let_def)
      then show ?thesis by auto
    qed
  qed
qed

lemma period_days:
  "a \<le> b \<Longrightarrow> b - a + 1 < 2 ^ 64 \<Longrightarrow>
   set (map (\<lambda>i. a + int i) [0..<nat ((b - a + 1) mod 2 ^ 64)]) = {a..b}"
proof -
  assume ab: "a \<le> b" and small: "b - a + 1 < 2 ^ 64"
  then have n: "(b - a + 1) mod 2 ^ 64 = b - a + 1"
    by simp
  have "(\<lambda>i. a + int i) ` {0..<nat (b - a + 1)} = {a..b}"
  proof (intro equalityI subsetI)
    fix k assume "k \<in> (\<lambda>i. a + int i) ` {0..<nat (b - a + 1)}"
    then show "k \<in> {a..b}" by auto
  next
    fix k assume "k \<in> {a..b}"
    then have "k = a + int (nat (k - a))" "nat (k - a) \<in> {0..<nat (b - a + 1)}"
      by auto
    then show "k \<in> (\<lambda>i. a + int i) ` {0..<nat (b - a + 1)}"
      by (rule image_eqI)
  qed
  with n show ?thesis by simp
qed

lemma addFixing_writes:
  assumes "p = inflationPeriod E d (frequency idx)"
    and "fst p \<le> snd p" and "snd p - fst p + 1 < 2 ^ 64"
    and "forceOverwrite \<or> (\<forall>k\<in>{fst p..snd p}.
           ts_at (timeSeries idx) k = Null_Real \<or> ts_at (timeSeries idx) k = v)"
  shows "\<exists>h'. InflationIndex_addFixing E idx d v forceOverwrite = Inr (idx\<lparr>timeSeries := h'\<rparr>) \<and>
              (\<forall>k. ts_at h' k = (if fst p \<le> k \<and> k \<le> snd p then v else ts_at (timeSeries idx) k))"
proof -
  let ?ds = "map (\<lambda>i. fst p + int i) [0..<nat ((snd p - fst p + 1) mod 2 ^ 64)]"
  have days: "set ?ds = {fst p..snd p}"
    using assms(2,3) by (rule period_days)
  have len: "length ?ds = nat ((snd p - fst p + 1) mod 2 ^ 64)"
    by simp
  have "forceOverwrite \<or> (\<forall>k\<in>set ?ds. ts_at (timeSeries idx) k = Null_Real \<or> ts_at (timeSeries idx) k = v)"
    using assms(4) days by simp
  from Index_addFixings_writes [OF this, of "name idx"] obtain h' where
    h': "Index_addFixings (name idx) (timeSeries idx) ?ds (replicate (length ?ds) v) forceOverwrite = Inr h'"
        "\<forall>k. ts_at h' k = (if k \<in> set ?ds then v else ts_at (timeSeries idx) k)"
    by blast
  have "InflationIndex_addFixing E idx d v forceOverwrite = Inr (idx\<lparr>timeSeries := h'\<rparr>)"
    using h'(1) assms(1) len by (simp add: InflationIndex_addFixing_def Let_def)
  moreover have "\<forall>k. ts_at h' k = (if fst p \<le> k \<and> k \<le> snd p then v else ts_at (timeSeries idx) k)"
    using h'(2) days by simp
  ultimately show ?thesis by blast
qed

lemma addFixing_duplicate:
  assumes "p = inflationPeriod E d (frequency idx)"
    and "fst p \<le> snd p" and "snd p - fst p + 1 < 2 ^ 64"
    and "\<exists>k\<in>{fst p..snd p}. ts_at (timeSeries idx) k \<noteq> Null_Real \<and> ts_at (timeSeries idx) k \<noteq> v"
  shows "\<exists>k\<in>{fst p..snd p}. InflationIndex_addFixing E idx d v False
           = Inl (DuplicateFixing (name idx) k)"
proof -
  let ?ds = "map (\<lambda>i. fst p + int i) [0..<nat ((snd p - fst p + 1) mod 2 ^ 64)]"
  have days: "set ?ds = {fst p..snd p}"
    using assms(2,3) by (rule period_days)
  have len: "length ?ds = nat ((snd p - fst p + 1) mod 2 ^ 64)"
    by simp
  have "\<exists>k\<in>set ?ds. ts_at (timeSeries idx) k \<noteq> Null_Real \<and> ts_at (timeSeries idx) k \<noteq> v"
    using assms(4) days by simp
  from Index_addFixings_duplicate [OF _ this, of False "name idx"] obtain k where
    k: "k \<in> set ?ds"
       "Index_addFixings (name idx) (timeSeries idx) ?ds (replicate (length ?ds) v) False
          = Inl (DuplicateFixing (name idx) k)"
    by blast
  have "InflationIndex_addFixing E idx d v False = Inl (DuplicateFixing (name idx) k)"
    using k(2) assms(1) len by (simp add: InflationIndex_addFixing_def Let_def)
  with k(1) days show ?thesis by blast
qed

lemma dates_2021:
  "greg_mkDate 15 1 2021 = 44211" "greg_plus 44211 (Period (- 1) Months) = 44180"
  "greg_inflationPeriod 44180 Monthly = (44166, 44196)"
  "greg_mkDate 10 1 2020 = 43840" "greg_inflationPeriod 43840 Monthly = (43831, 43861)"
  "greg_mkDate 29 2 2020 = 43890"
  "greg_plus 43846 (Period 1 Months) = 43877" "greg_plus 43846 (Period 3 Months) = 43937"
  "greg_inflationPeriod 43937 Monthly = (43922, 43951)"
  by code_simp+

text \<open>
  C7, as the code has it. Let \<open>[start, end]\<close> be the period that contains \<open>d\<close>, let the
  series hold no fixing at its days, and let \<open>v\<close> be a value other than the sentinel.
  Then \<open>addFixing(d, v)\<close> succeeds, changes only the series, and leaves \<open>v\<close> at every day
  of \<open>[start, end]\<close> and the other days as they were. Afterwards a historical
  \<open>fixing(d')\<close> of the zero inflation index for a day \<open>d'\<close> of that period returns \<open>v\<close>
  when the index is not interpolated or \<open>d'\<close> is the start of the period (elsewhere an
  interpolated index interpolates with the fixing of the next period); a second
  \<open>addFixing\<close> on a date of that
  period with another value fails with DuplicateFixing when \<open>forceOverwrite\<close> is false,
  and with \<open>forceOverwrite\<close> true it succeeds and leaves the new value at every day of
  the period.
\<close>

theorem addFixing_roundtrip:
  assumes "p = inflationPeriod E d (frequency idx)"
    and "fst p \<le> snd p" and "snd p - fst p + 1 < 2 ^ 64"
    and "\<forall>k\<in>{fst p..snd p}. ts_at (timeSeries idx) k = Null_Real"
    and "v \<noteq> Null_Real"
  shows "\<exists>h'. InflationIndex_addFixing E idx d v False = Inr (idx\<lparr>timeSeries := h'\<rparr>) \<and>
           (\<forall>k. ts_at h' k = (if fst p \<le> k \<and> k \<le> snd p then v else ts_at (timeSeries idx) k)) \<and>
           (\<forall>d'. inflationPeriod E d' (frequency idx) = p
                  \<and> \<not> needsForecast E (idx\<lparr>timeSeries := h'\<rparr>) d'
                  \<and> (\<not> interpolated idx \<or> d' = fst p) \<longrightarrow>
                  ZeroInflationIndex_fixing E (idx\<lparr>timeSeries := h'\<rparr>) d' = Inr v) \<and>
           (\<forall>d' v'. inflationPeriod E d' (frequency idx) = p \<and> v' \<noteq> v \<longrightarrow>
              (\<exists>k\<in>{fst p..snd p}.
                 InflationIndex_addFixing E (idx\<lparr>timeSeries := h'\<rparr>) d' v' False
                   = Inl (DuplicateFixing (name idx) k)) \<and>
              (\<exists>h''. InflationIndex_addFixing E (idx\<lparr>timeSeries := h'\<rparr>) d' v' True
                        = Inr (idx\<lparr>timeSeries := h''\<rparr>) \<and>
                     (\<forall>k. ts_at h'' k = (if fst p \<le> k \<and> k \<le> snd p then v' else ts_at h' k))))"
proof -
  let ?Z = "ZeroInflationIndex_fixing"
  have "False \<or> (\<forall>k\<in>{fst p..snd p}.
           ts_at (timeSeries idx) k = Null_Real \<or> ts_at (timeSeries idx) k = v)"
    using assms(4) by simp
  from addFixing_writes [OF assms(1,2,3) this] obtain h' where
    h': "InflationIndex_addFixing E idx d v False = Inr (idx\<lparr>timeSeries := h'\<rparr>)"
        "\<forall>k. ts_at h' k = (if fst p \<le> k \<and> k \<le> snd p then v else ts_at (timeSeries idx) k)"
    by blast
  let ?idx' = "idx\<lparr>timeSeries := h'\<rparr>"
  have start: "ts_at h' (fst p) = v"
    using h'(2) assms(2) by simp
  have fixing: "?Z E ?idx' d' = Inr v"
    if "inflationPeriod E d' (frequency idx) = p \<and> \<not> needsForecast E ?idx' d'
          \<and> (\<not> interpolated idx \<or> d' = fst p)" for d'
  proof -
    from that have np: "\<not> needsForecast E ?idx' d'" and per: "inflationPeriod E d' (frequency idx) = p"
      and flat: "\<not> (interpolated idx \<and> d' > fst p)"
      by auto
    show ?thesis
      using fixing_historical [OF np] per flat start assms(5) by (simp add: Let_def)
  qed
  have second: "(\<exists>k\<in>{fst p..snd p}. InflationIndex_addFixing E ?idx' d' v' False
                     = Inl (DuplicateFixing (name idx) k)) \<and>
                (\<exists>h''. InflationIndex_addFixing E ?idx' d' v' True = Inr (idx\<lparr>timeSeries := h''\<rparr>) \<and>
                     (\<forall>k. ts_at h'' k = (if fst p \<le> k \<and> k \<le> snd p then v' else ts_at h' k)))"
    if "inflationPeriod E d' (frequency idx) = p \<and> v' \<noteq> v" for d' v'
  proof
    from that have per: "p = inflationPeriod E d' (frequency ?idx')" and differs: "v' \<noteq> v"
      by auto
    have "fst p \<in> {fst p..snd p}" "ts_at (timeSeries ?idx') (fst p) \<noteq> Null_Real"
         "ts_at (timeSeries ?idx') (fst p) \<noteq> v'"
      using assms(2,5) start differs by auto
    then have "\<exists>k\<in>{fst p..snd p}. ts_at (timeSeries ?idx') k \<noteq> Null_Real
                 \<and> ts_at (timeSeries ?idx') k \<noteq> v'"
      by blast
    from addFixing_duplicate [OF per assms(2,3) this]
    show "\<exists>k\<in>{fst p..snd p}. InflationIndex_addFixing E ?idx' d' v' False
            = Inl (DuplicateFixing (name idx) k)"
      by (simp add: name_def)
    have "True \<or> (\<forall>k\<in>{fst p..snd p}.
             ts_at (timeSeries ?idx') k = Null_Real \<or> ts_at (timeSeries ?idx') k = v')"
      by simp
    from addFixing_writes [OF per assms(2,3) this] obtain h'' where
      h'': "InflationIndex_addFixing E ?idx' d' v' True = Inr (?idx'\<lparr>timeSeries := h''\<rparr>)"
           "\<forall>k. ts_at h'' k
                  = (if fst p \<le> k \<and> k \<le> snd p then v' else ts_at (timeSeries ?idx') k)"
      by blast
    have "InflationIndex_addFixing E ?idx' d' v' True = Inr (idx\<lparr>timeSeries := h''\<rparr>)"
      using h''(1) by simp
    moreover have "\<forall>k. ts_at h'' k = (if fst p \<le> k \<and> k \<le> snd p then v' else ts_at h' k)"
      using h''(2) by simp
    ultimately
    show "\<exists>h''. InflationIndex_addFixing E ?idx' d' v' True = Inr (idx\<lparr>timeSeries := h''\<rparr>) \<and>
                (\<forall>k. ts_at h'' k = (if fst p \<le> k \<and> k \<le> snd p then v' else ts_at h' k))"
      by blast
  qed
  show ?thesis
    using h' fixing second by blast
qed

theorem addFixing_roundtrip_witness:
  "addFixing_then_fixing (gregorian (greg_mkDate 15 3 2020))
     (zeroIndex False Monthly (Period 1 Months) Map.empty None)
     (greg_mkDate 10 1 2020) 100 False (greg_mkDate 20 1 2020) = Inr 100 \<and>
   (\<exists>k. addFixing_twice (gregorian (greg_mkDate 15 3 2020))
          (zeroIndex False Monthly (Period 1 Months) Map.empty None)
          (greg_mkDate 10 1 2020) 100 (greg_mkDate 20 1 2020) 102 False
        = Inl (DuplicateFixing ''UK RPI'' k)) \<and>
   (\<exists>idx''. addFixing_twice (gregorian (greg_mkDate 15 3 2020))
          (zeroIndex False Monthly (Period 1 Months) Map.empty None)
          (greg_mkDate 10 1 2020) 100 (greg_mkDate 20 1 2020) 102 True
        = Inr idx'' \<and> ts_at (timeSeries idx'') (greg_mkDate 16 1 2020) = 102)"
proof -
  let ?E = "gregorian (greg_mkDate 15 3 2020)"
  let ?z = "zeroIndex False Monthly (Period 1 Months) Map.empty None"
  have per: "(43831, 43861) = inflationPeriod ?E 43840 (frequency ?z)"
            "inflationPeriod ?E 43850 (frequency ?z) = (43831, 43861)"
    by (simp_all add: gregorian_def zeroIndex_def dates_2021 periods_2020)
  have empty: "\<forall>k\<in>{fst (43831::int, 43861::int)..snd (43831::int, 43861::int)}.
                 ts_at (timeSeries ?z) k = Null_Real"
    by (simp add: zeroIndex_def ts_at_def)
  from addFixing_roundtrip [OF per(1) _ _ empty not_Null_Real(1)] obtain h' where
    h': "InflationIndex_addFixing ?E ?z 43840 100 False = Inr (?z\<lparr>timeSeries := h'\<rparr>)"
        "\<forall>d'. inflationPeriod ?E d' (frequency ?z) = (43831, 43861)
                  \<and> \<not> needsForecast ?E (?z\<lparr>timeSeries := h'\<rparr>) d'
                  \<and> (\<not> interpolated ?z \<or> d' = fst (43831::int, 43861::int)) \<longrightarrow>
                  ZeroInflationIndex_fixing ?E (?z\<lparr>timeSeries := h'\<rparr>) d' = Inr 100"
        "\<forall>d' v'. inflationPeriod ?E d' (frequency ?z) = (43831, 43861) \<and> v' \<noteq> 100 \<longrightarrow>
              (\<exists>k\<in>{fst (43831::int, 43861::int)..snd (43831::int, 43861::int)}.
                 InflationIndex_addFixing ?E (?z\<lparr>timeSeries := h'\<rparr>) d' v' False
                   = Inl (DuplicateFixing (name ?z) k)) \<and>
              (\<exists>h''. InflationIndex_addFixing ?E (?z\<lparr>timeSeries := h'\<rparr>) d' v' True
                        = Inr (?z\<lparr>timeSeries := h''\<rparr>) \<and>
                     (\<forall>k. ts_at h'' k = (if fst (43831::int, 43861::int) \<le> k
                                             \<and> k \<le> snd (43831::int, 43861::int)
                                          then v' else ts_at h' k)))"
    by auto
  have hist: "\<not> needsForecast ?E (?z\<lparr>timeSeries := h'\<rparr>) 43850"
    by (simp add: needsForecast_def historicalFixingKnown_def latestNeededDate_def gregorian_def
          zeroIndex_def minus_Period_def dates_2020 lag_2020_03_15)
  have "\<not> interpolated ?z"
    by (simp add: zeroIndex_def)
  with h'(2) per(2) hist have fixed: "ZeroInflationIndex_fixing ?E (?z\<lparr>timeSeries := h'\<rparr>) 43850 = Inr 100"
    by blast
  have a: "addFixing_then_fixing ?E ?z 43840 100 False 43850 = Inr 100"
    using h'(1) fixed by (simp add: addFixing_then_fixing_def)
  have "(102::real) \<noteq> 100"
    by simp
  with h'(3) per(2) have
    "(\<exists>k\<in>{fst (43831::int, 43861::int)..snd (43831::int, 43861::int)}.
        InflationIndex_addFixing ?E (?z\<lparr>timeSeries := h'\<rparr>) 43850 102 False
          = Inl (DuplicateFixing (name ?z) k)) \<and>
     (\<exists>h''. InflationIndex_addFixing ?E (?z\<lparr>timeSeries := h'\<rparr>) 43850 102 True
               = Inr (?z\<lparr>timeSeries := h''\<rparr>) \<and>
            (\<forall>k. ts_at h'' k = (if fst (43831::int, 43861::int) \<le> k
                                    \<and> k \<le> snd (43831::int, 43861::int)
                                 then 102 else ts_at h' k)))"
    by blast
  then obtain k h'' where
    second: "InflationIndex_addFixing ?E (?z\<lparr>timeSeries := h'\<rparr>) 43850 102 False
               = Inl (DuplicateFixing (name ?z) k)"
            "InflationIndex_addFixing ?E (?z\<lparr>timeSeries := h'\<rparr>) 43850 102 True
               = Inr (?z\<lparr>timeSeries := h''\<rparr>)"
            "\<forall>k. ts_at h'' k = (if fst (43831::int, 43861::int) \<le> k
                                     \<and> k \<le> snd (43831::int, 43861::int)
                                  then 102 else ts_at h' k)"
    by blast
  have b: "addFixing_twice ?E ?z 43840 100 43850 102 False = Inl (DuplicateFixing ''UK RPI'' k)"
    using h'(1) second(1) by (simp add: addFixing_twice_def name_def zeroIndex_def)
  have c: "addFixing_twice ?E ?z 43840 100 43850 102 True = Inr (?z\<lparr>timeSeries := h''\<rparr>)"
          "ts_at (timeSeries (?z\<lparr>timeSeries := h''\<rparr>)) 43846 = 102"
    using h'(1) second(2,3) by (simp_all add: addFixing_twice_def)
  show ?thesis
    using a b c by (auto simp: dates_2020 dates_2021 dates_2020_01)
qed

text \<open>
  C7 as stated fails for an interpolated index. The series holds 102 for February 2020
  and nothing for January 2020; \<open>addFixing(10 January 2020, 100)\<close> succeeds, and on
  15 January 2021 the fixing of 16 January 2020 is historical, but it is interpolated
  between the fixings of January and February (with an observation lag of three months
  the weight is 15/30): 101, not the 100 that was submitted.
\<close>

theorem addFixing_interpolated_counterexample:
  "addFixing_then_needsForecast (gregorian (greg_mkDate 15 1 2021))
     (zeroIndex True Monthly (Period 1 Months)
        (fixings [(greg_mkDate 1 2 2020, greg_mkDate 29 2 2020, 102)])
        (Some (flatCurve (2 / 100) (greg_mkDate 1 12 2019) (Period 3 Months))))
     (greg_mkDate 10 1 2020) 100 False (greg_mkDate 16 1 2020) = Inr False \<and>
   addFixing_then_fixing (gregorian (greg_mkDate 15 1 2021))
     (zeroIndex True Monthly (Period 1 Months)
        (fixings [(greg_mkDate 1 2 2020, greg_mkDate 29 2 2020, 102)])
        (Some (flatCurve (2 / 100) (greg_mkDate 1 12 2019) (Period 3 Months))))
     (greg_mkDate 10 1 2020) 100 False (greg_mkDate 16 1 2020) = Inr 101"
proof -
  let ?E = "gregorian (greg_mkDate 15 1 2021)"
  let ?c = "flatCurve (2 / 100) (greg_mkDate 1 12 2019) (Period 3 Months)"
  let ?ts = "fixings [(greg_mkDate 1 2 2020, greg_mkDate 29 2 2020, 102)]"
  let ?z = "zeroIndex True Monthly (Period 1 Months) ?ts (Some ?c)"
  have per: "(43831, 43861) = inflationPeriod ?E 43840 (frequency ?z)"
    by (simp add: gregorian_def zeroIndex_def dates_2021)
  have empty: "False \<or> (\<forall>k\<in>{fst (43831::int, 43861::int)..snd (43831::int, 43861::int)}.
                 ts_at (timeSeries ?z) k = Null_Real \<or> ts_at (timeSeries ?z) k = 100)"
    by (simp add: zeroIndex_def ts_at_def dates_2020 dates_2021)
  from addFixing_writes [OF per _ _ empty] obtain h' where
    h': "InflationIndex_addFixing ?E ?z 43840 100 False = Inr (?z\<lparr>timeSeries := h'\<rparr>)"
        "\<forall>k. ts_at h' k = (if fst (43831::int, 43861::int) \<le> k \<and> k \<le> snd (43831::int, 43861::int)
                            then 100 else ts_at (timeSeries ?z) k)"
    by auto
  have stored: "ts_at h' 43831 = 100" "ts_at h' 43862 = 102"
    using h'(2) by (simp_all add: zeroIndex_def ts_at_def dates_2020 dates_2021)
  have hist: "\<not> needsForecast ?E (?z\<lparr>timeSeries := h'\<rparr>) 43846"
    by (simp add: needsForecast_def historicalFixingKnown_def latestNeededDate_def gregorian_def
          zeroIndex_def minus_Period_def dates_2021 dates_2020_01)
  have "ZeroInflationIndex_fixing ?E (?z\<lparr>timeSeries := h'\<rparr>) 43846 = Inr (100 + (102 - 100) * (15 / 30))"
    using fixing_historical [OF hist] stored not_Null_Real
    by (simp add: gregorian_def zeroIndex_def flatCurve_def interpolationCoefficient_def
          dates_2021 dates_2020_01)
  then have "ZeroInflationIndex_fixing ?E (?z\<lparr>timeSeries := h'\<rparr>) 43846 = Inr 101"
    by simp
  with h'(1) hist show ?thesis
    by (simp add: addFixing_then_fixing_def addFixing_then_needsForecast_def dates_2021 dates_2020_01)
qed

section \<open>The series keys that the engines read\<close>

text \<open>
  The classification and the historical branches depend on the series only through the
  keys listed by the lookup functions: a series that agrees with the index's own at those
  keys gives the same result.
\<close>

lemma needsForecast_reads:
  "\<forall>k\<in>set (needsForecast_lookups E idx d). ts_at ts' k = ts_at (timeSeries idx) k \<Longrightarrow>
   needsForecast E (idx\<lparr>timeSeries := ts'\<rparr>) d = needsForecast E idx d"
  by (simp add: needsForecast_def needsForecast_lookups_def historicalFixingKnown_def
        latestNeededDate_def Let_def)

lemma ZeroInflationIndex_fixing_reads:
  assumes "\<not> needsForecast E idx d"
    and "\<forall>k\<in>set (needsForecast_lookups E idx d @ ZeroInflationIndex_fixing_lookups E idx d).
           ts_at ts' k = ts_at (timeSeries idx) k"
  shows "ZeroInflationIndex_fixing E (idx\<lparr>timeSeries := ts'\<rparr>) d = ZeroInflationIndex_fixing E idx d"
proof -
  have "needsForecast E (idx\<lparr>timeSeries := ts'\<rparr>) d = needsForecast E idx d"
    using assms(2) by (intro needsForecast_reads) simp
  with assms(1) have hist: "\<not> needsForecast E (idx\<lparr>timeSeries := ts'\<rparr>) d"
    by simp
  have first: "ts_at ts' (fst (inflationPeriod E d (frequency idx)))
                 = ts_at (timeSeries idx) (fst (inflationPeriod E d (frequency idx)))"
    using assms by (simp add: ZeroInflationIndex_fixing_lookups_def Let_def)
  show ?thesis
    using assms first
    by (auto simp: fixing_historical [OF hist] fixing_historical [OF assms(1)]
          ZeroInflationIndex_fixing_lookups_def name_def Let_def split: option.splits)
qed

lemma YoYInflationIndex_fixing_reads:
  assumes "d < mustForecastOn E idx"
    and "\<forall>k\<in>set (YoYInflationIndex_fixing_lookups E idx d). ts_at ts' k = ts_at (timeSeries idx) k"
  shows "YoYInflationIndex_fixing E (idx\<lparr>timeSeries := ts'\<rparr>) d = YoYInflationIndex_fixing E idx d"
proof -
  have frontier: "d < mustForecastOn E (idx\<lparr>timeSeries := ts'\<rparr>)"
    using assms(1) by (simp add: mustForecastOn_def)
  have first: "ts_at ts' (fst (inflationPeriod E d (frequency idx)))
                 = ts_at (timeSeries idx) (fst (inflationPeriod E d (frequency idx)))"
    using assms by (simp add: YoYInflationIndex_fixing_lookups_def Let_def)
  show ?thesis
  proof (cases "ratio idx")
    case True
    show ?thesis
    proof (cases "interpolated idx")
      case True
      with \<open>ratio idx\<close> assms first show ?thesis
        by (auto simp: yoy_ratio_interpolated [OF _ _ frontier] yoy_ratio_interpolated [OF _ _ assms(1)]
              YoYInflationIndex_fixing_lookups_def name_def Let_def)
    next
      case False
      with \<open>ratio idx\<close> assms first show ?thesis
        by (auto simp: yoy_ratio_flat [OF _ _ frontier] yoy_ratio_flat [OF _ _ assms(1)]
              YoYInflationIndex_fixing_lookups_def name_def Let_def)
    qed
  next
    case False
    show ?thesis
    proof (cases "interpolated idx")
      case True
      with \<open>\<not> ratio idx\<close> assms first show ?thesis
        by (auto simp: yoy_interpolated [OF _ _ frontier] yoy_interpolated [OF _ _ assms(1)]
              YoYInflationIndex_fixing_lookups_def name_def Let_def)
    next
      case False
      with \<open>\<not> ratio idx\<close> assms first show ?thesis
        by (auto simp: yoy_flat [OF _ _ frontier] yoy_flat [OF _ _ assms(1)]
              YoYInflationIndex_fixing_lookups_def name_def Let_def)
    qed
  qed
qed

text \<open>
  C3, as the code has it. The historical branch of the zero engine reads the start of the
  period that contains the fixing date and, when it interpolates, the day after the end
  of that period. The year-on-year engine reads the start of the period of the fixing date
  and, with \<open>ratio\<close>, of the date one year earlier, and when it interpolates the day after
  the end of those periods. The probe of \<open>needsForecast\<close> reads the first day of the
  calendar month of \<open>latestNeededDate\<close>, whatever the frequency.
\<close>

theorem lookups_at_period_starts:
  "(\<forall>k\<in>set (ZeroInflationIndex_fixing_lookups E z d).
      k = fst (inflationPeriod E d (frequency z))
      \<or> interpolated z \<and> k = snd (inflationPeriod E d (frequency z)) + 1) \<and>
   (\<forall>k\<in>set (YoYInflationIndex_fixing_lookups E y d).
      k = fst (inflationPeriod E d (frequency y))
      \<or> interpolated y \<and> k = snd (inflationPeriod E d (frequency y)) + 1
      \<or> ratio y \<and> \<not> interpolated y
          \<and> k = fst (inflationPeriod E (minus_Period E d (Period 1 Years)) (frequency y))
      \<or> ratio y \<and> interpolated y
          \<and> (k = fst (inflationPeriod E (advance E d (Period (- 1) Years)) (frequency y))
             \<or> k = snd (inflationPeriod E (advance E d (Period (- 1) Years)) (frequency y)) + 1)) \<and>
   (\<forall>k\<in>set (needsForecast_lookups E z d).
      k = mkDate E 1 (month E (latestNeededDate E z d)) (year E (latestNeededDate E z d)))"
proof (intro conjI)
  show "\<forall>k\<in>set (ZeroInflationIndex_fixing_lookups E z d).
      k = fst (inflationPeriod E d (frequency z))
      \<or> interpolated z \<and> k = snd (inflationPeriod E d (frequency z)) + 1"
    by (auto simp: ZeroInflationIndex_fixing_lookups_def Let_def split: if_splits)
  show "\<forall>k\<in>set (YoYInflationIndex_fixing_lookups E y d).
      k = fst (inflationPeriod E d (frequency y))
      \<or> interpolated y \<and> k = snd (inflationPeriod E d (frequency y)) + 1
      \<or> ratio y \<and> \<not> interpolated y
          \<and> k = fst (inflationPeriod E (minus_Period E d (Period 1 Years)) (frequency y))
      \<or> ratio y \<and> interpolated y
          \<and> (k = fst (inflationPeriod E (advance E d (Period (- 1) Years)) (frequency y))
             \<or> k = snd (inflationPeriod E (advance E d (Period (- 1) Years)) (frequency y)) + 1)"
    by (auto simp: YoYInflationIndex_fixing_lookups_def Let_def split: if_splits)
  show "\<forall>k\<in>set (needsForecast_lookups E z d).
      k = mkDate E 1 (month E (latestNeededDate E z d)) (year E (latestNeededDate E z d))"
    by (auto simp: needsForecast_lookups_def Let_def split: if_splits)
qed

lemma dates_2018_12_20:
  "greg_mkDate 20 12 2018 = 43454" "greg_plus 43819 (Period (- 1) Years) = 43454"
  "greg_inflationPeriod 43454 Monthly = (43435, 43465)"
  "greg_inflationPeriod 43881 Monthly = (43862, 43890)"
  by code_simp+

theorem lookups_at_period_starts_witness:
  "ZeroInflationIndex_fixing_lookups (gregorian (greg_mkDate 15 3 2020))
     (zeroIndex True Monthly (Period 1 Months)
        (fixings [(greg_mkDate 1 12 2019, greg_mkDate 31 12 2019, 100),
                  (greg_mkDate 1 1 2020, greg_mkDate 31 1 2020, 102)]) None)
     (greg_mkDate 20 12 2019) = [greg_mkDate 1 12 2019, greg_mkDate 1 1 2020] \<and>
   set (ZeroInflationIndex_fixing_lookups (gregorian (greg_mkDate 15 3 2020))
     (zeroIndex True Monthly (Period 1 Months)
        (fixings [(greg_mkDate 1 12 2019, greg_mkDate 31 12 2019, 100),
                  (greg_mkDate 1 1 2020, greg_mkDate 31 1 2020, 102)]) None)
     (greg_mkDate 20 12 2019))
     \<subseteq> {fst (greg_inflationPeriod (greg_mkDate 20 12 2019) Monthly),
         snd (greg_inflationPeriod (greg_mkDate 20 12 2019) Monthly) + 1} \<and>
   YoYInflationIndex_fixing_lookups (gregorian (greg_mkDate 15 3 2020))
     (yoyIndex True True Monthly (Period 1 Months)
        (fixings [(greg_mkDate 1 12 2018, greg_mkDate 31 12 2018, 90),
                  (greg_mkDate 1 1 2019, greg_mkDate 31 1 2019, 91),
                  (greg_mkDate 1 12 2019, greg_mkDate 31 12 2019, 100),
                  (greg_mkDate 1 1 2020, greg_mkDate 31 1 2020, 102)]) None)
     (greg_mkDate 20 12 2019)
     = [greg_mkDate 1 12 2019, greg_mkDate 1 1 2020, greg_mkDate 1 12 2018, greg_mkDate 1 1 2019] \<and>
   set (YoYInflationIndex_fixing_lookups (gregorian (greg_mkDate 15 3 2020))
     (yoyIndex True True Monthly (Period 1 Months)
        (fixings [(greg_mkDate 1 12 2018, greg_mkDate 31 12 2018, 90),
                  (greg_mkDate 1 1 2019, greg_mkDate 31 1 2019, 91),
                  (greg_mkDate 1 12 2019, greg_mkDate 31 12 2019, 100),
                  (greg_mkDate 1 1 2020, greg_mkDate 31 1 2020, 102)]) None)
     (greg_mkDate 20 12 2019))
     \<subseteq> {fst (greg_inflationPeriod (greg_mkDate 20 12 2019) Monthly),
         snd (greg_inflationPeriod (greg_mkDate 20 12 2019) Monthly) + 1,
         fst (greg_inflationPeriod (greg_mkDate 20 12 2018) Monthly),
         snd (greg_inflationPeriod (greg_mkDate 20 12 2018) Monthly) + 1} \<and>
   needsForecast_lookups (gregorian (greg_mkDate 15 3 2020))
     (zeroIndex False Monthly (Period 1 Months) Map.empty None)
     (greg_mkDate 20 2 2020) = [greg_mkDate 1 2 2020] \<and>
   set (needsForecast_lookups (gregorian (greg_mkDate 15 3 2020))
     (zeroIndex False Monthly (Period 1 Months) Map.empty None)
     (greg_mkDate 20 2 2020)) \<subseteq> {fst (greg_inflationPeriod (greg_mkDate 20 2 2020) Monthly)}"
proof -
  let ?E = "gregorian (greg_mkDate 15 3 2020)"
  let ?both = "fixings [(greg_mkDate 1 12 2019, greg_mkDate 31 12 2019, 100),
                        (greg_mkDate 1 1 2020, greg_mkDate 31 1 2020, 102)]"
  let ?four = "fixings [(greg_mkDate 1 12 2018, greg_mkDate 31 12 2018, 90),
                        (greg_mkDate 1 1 2019, greg_mkDate 31 1 2019, 91),
                        (greg_mkDate 1 12 2019, greg_mkDate 31 12 2019, 100),
                        (greg_mkDate 1 1 2020, greg_mkDate 31 1 2020, 102)]"
  let ?z = "zeroIndex True Monthly (Period 1 Months) ?both None"
  let ?y = "yoyIndex True True Monthly (Period 1 Months) ?four None"
  let ?f = "zeroIndex False Monthly (Period 1 Months) Map.empty None"
  have hist: "\<not> needsForecast ?E ?z 43819"
    by (simp add: needsForecast_def historicalFixingKnown_def latestNeededDate_def gregorian_def
          zeroIndex_def minus_Period_def dates_2020 lag_2020_03_15 periods_2020 plus_2020)
  have frontier: "mustForecastOn ?E ?y = 43831"
    by (rule yoy_frontier_2020_03_15)
  have per: "inflationPeriod ?E 43819 Monthly = (43800, 43830)"
            "inflationPeriod ?E (advance ?E 43819 (Period (- 1) Years)) Monthly = (43435, 43465)"
    by (simp_all add: gregorian_def periods_2020 dates_2018_12_20)
  have stored: "ts_at ?both 43800 = 100" "ts_at ?four 43800 = 100" "ts_at ?four 43831 = 102"
    "ts_at ?four 43435 = 90"
    by (simp_all add: ts_at_def dates_2020 dates_2019 dates_2019_01 dates_2018_12)
  have f: "frequency ?z = Monthly" "interpolated ?z" "timeSeries ?z = ?both"
    "frequency ?y = Monthly" "interpolated ?y" "ratio ?y" "timeSeries ?y = ?four"
    by (simp_all add: zeroIndex_def yoyIndex_def)
  have zl: "ZeroInflationIndex_fixing_lookups ?E ?z 43819 = [43800, 43831]"
    using hist per stored f not_Null_Real
    by (simp add: ZeroInflationIndex_fixing_lookups_def Let_def)
  have yl: "YoYInflationIndex_fixing_lookups ?E ?y 43819 = [43800, 43831, 43435, 43466]"
    using frontier per stored f not_Null_Real not_Null_Real_more
    by (simp add: YoYInflationIndex_fixing_lookups_def Let_def)
  have nl: "needsForecast_lookups ?E ?f 43881 = [43862]"
    by (simp add: needsForecast_lookups_def historicalFixingKnown_def latestNeededDate_def
          gregorian_def zeroIndex_def minus_Period_def dates_2020 lag_2020_03_15 plus_2020)
  have latest: "latestNeededDate ?E ?f 43881 = 43881"
    by (simp add: latestNeededDate_def zeroIndex_def)
  have a: "set (ZeroInflationIndex_fixing_lookups ?E ?z 43819) \<subseteq> {43800, 43830 + 1}"
    using lookups_at_period_starts [of ?E ?z 43819 ?y] per f by auto
  have b: "set (YoYInflationIndex_fixing_lookups ?E ?y 43819)
             \<subseteq> {43800, 43830 + 1, 43435, 43465 + 1}"
    using lookups_at_period_starts [of ?E ?z 43819 ?y] per f by auto
  have c: "set (needsForecast_lookups ?E ?f 43881) \<subseteq> {43862}"
    using lookups_at_period_starts [of ?E ?f 43881 ?y] latest
    by (auto simp: gregorian_def plus_2020 dates_2020)
  show ?thesis
    using zl yl nl a b c
    by (simp add: dates_2020 dates_2019 dates_2019_01 dates_2018_12 dates_2018_12_20 periods_2020)
qed

text \<open>
  C3 as stated fails for the probe of \<open>needsForecast\<close> at a frequency other than monthly:
  for a quarterly index on 15 March 2020, 20 February 2020 is in the ambiguous window and
  the probe reads 1 February 2020, a day inside the quarter that starts on 1 January 2020.
\<close>

theorem needsForecast_probe_counterexample:
  "needsForecast_lookups (gregorian (greg_mkDate 15 3 2020))
     (zeroIndex False Quarterly (Period 1 Months) Map.empty None)
     (greg_mkDate 20 2 2020) = [greg_mkDate 1 2 2020] \<and>
   fst (inflationPeriod (gregorian (greg_mkDate 15 3 2020)) (greg_mkDate 1 2 2020) Quarterly)
     = greg_mkDate 1 1 2020 \<and>
   greg_mkDate 1 1 2020 < greg_mkDate 1 2 2020 \<and>
   greg_mkDate 1 2 2020
     \<le> snd (inflationPeriod (gregorian (greg_mkDate 15 3 2020)) (greg_mkDate 1 2 2020) Quarterly)"
  by (simp add: needsForecast_lookups_def historicalFixingKnown_def latestNeededDate_def
        gregorian_def zeroIndex_def minus_Period_def dates_2020 lag_2020_03_15 periods_2020
        plus_2020)

end
